theory Spec2Isabelle
  imports Main
begin

section \<open>Values exchanged with the outside world\<close>

text \<open>
  Request bodies, stored user records and response bodies are JSON values. The fields
  \<open>request_id\<close> and \<open>duration_ms\<close> of a response's metadata depend on the clock and on
  \<open>Math.random\<close>; they are left out of every modelled body.
\<close>

datatype json =
    JUndefined
  | JNull
  | JBool bool
  | JNum int
  | JStr string
  | JObj "(string \<times> json) list"

text \<open>JavaScript truthiness, as \<open>!x\<close> and \<open>!!x\<close> test it.\<close>

fun truthy :: "json \<Rightarrow> bool" where
  "truthy JUndefined = False"
| "truthy JNull = False"
| "truthy (JBool b) = b"
| "truthy (JNum n) = (n \<noteq> 0)"
| "truthy (JStr s) = (s \<noteq> [])"
| "truthy (JObj fs) = True"

fun field :: "json \<Rightarrow> string \<Rightarrow> json" where
  "field (JObj fs) k = (case map_of fs k of Some v \<Rightarrow> v | None \<Rightarrow> JUndefined)"
| "field v k = JUndefined"

section \<open>The admission store (Redis keys of \<open>WAITLIST_KEYS\<close>)\<close>

text \<open>
  \<open>waitlist\<close> is the Redis list \<open>waitlist:list\<close>; \<open>emails\<close>, \<open>phones\<close> and \<open>users\<close> are the
  hashes \<open>waitlist:emails\<close>, \<open>waitlist:phones\<close> and \<open>waitlist:users\<close>. The stored user
  record is the object handed to \<open>JSON.stringify\<close>.
\<close>

record store =
  waitlist :: "string list"
  emails :: "string \<rightharpoonup> string"
  phones :: "string \<rightharpoonup> string"
  users :: "string \<rightharpoonup> json"

definition emptyStore :: store where
  "emptyStore = \<lparr>waitlist = [], emails = Map.empty, phones = Map.empty, users = Map.empty\<rparr>"

subsection \<open>The scripts of \<open>REDIS_SCRIPTS\<close>\<close>

text \<open>
  The loop \<open>for i, item in ipairs(items) do if item == id then return i end end\<close>,
  falling through to 0. The counter starts at 1.
\<close>

fun ipairs_find :: "string list \<Rightarrow> string \<Rightarrow> nat \<Rightarrow> int" where
  "ipairs_find [] x i = 0"
| "ipairs_find (item # items) x i = (if item = x then int i else ipairs_find items x (Suc i))"

definition getPosition :: "store \<Rightarrow> string \<Rightarrow> int" where
  "getPosition st ident = ipairs_find (waitlist st) ident 1"

definition getPositionByIdentifier :: "store \<Rightarrow> string \<Rightarrow> int" where
  "getPositionByIdentifier st identifier =
     (case (case emails st identifier of Some u \<Rightarrow> Some u | None \<Rightarrow> phones st identifier) of
        None \<Rightarrow> 0
      | Some userId \<Rightarrow> ipairs_find (waitlist st) userId 1)"



text \<open>
  The script's reply is the triple \<open>{position, existed, userIdToUse}\<close>. A script runs
  as one indivisible step, so it is a function from the store to the new store and the
  reply. \<open>HGET\<close> of a missing field is \<open>false\<close> in Lua and any string, the empty one
  too, is true there: a hit is \<open>Some\<close>.
\<close>

type_synonym reply = "int \<times> int \<times> string"

definition insertUser_script ::
  "store \<Rightarrow> string \<Rightarrow> string \<Rightarrow> string \<Rightarrow> int \<Rightarrow> json \<Rightarrow> store \<times> reply" where
  "insertUser_script st ident email phone limit userDataJson =
     (let (userIdToUse, existed) =
            (if email \<noteq> [] then
               (case emails st email of
                  Some existingIdByEmail \<Rightarrow> (existingIdByEmail, 1::int)
                | None \<Rightarrow> (ident, 0))
             else (ident, 0));
          (userIdToUse, existed) =
            (if existed = 0 \<and> phone \<noteq> [] then
               (case phones st phone of
                  Some existingIdByPhone \<Rightarrow> (existingIdByPhone, 1)
                | None \<Rightarrow> (userIdToUse, existed))
             else (userIdToUse, existed))
      in
        if existed = 1 then
          (let position = ipairs_find (waitlist st) userIdToUse 1;
               st1 = st\<lparr>users := (users st)(userIdToUse \<mapsto> userDataJson)\<rparr>
           in (st1, (position, existed, userIdToUse)))
        else
          (let currentLength = int (length (waitlist st)) in
           if currentLength \<ge> limit then (st, (-1, -1, []))
           else
             (let st1 = st\<lparr>waitlist := waitlist st @ [userIdToUse]\<rparr>;
                  position = currentLength + 1;
                  st2 = (if email \<noteq> [] then st1\<lparr>emails := (emails st1)(email \<mapsto> userIdToUse)\<rparr>
                         else st1);
                  st3 = (if phone \<noteq> [] then st2\<lparr>phones := (phones st2)(phone \<mapsto> userIdToUse)\<rparr>
                         else st2);
                  st4 = st3\<lparr>users := (users st3)(userIdToUse \<mapsto> userDataJson)\<rparr>
              in (st4, (position, existed, userIdToUse)))))"

text \<open>
  The IdentityIndex of the specification, read off the two hashes: the entry id an
  identity (an e-mail, a phone number, the other argument empty) is indexed under.
\<close>

definition identityIndex :: "store \<Rightarrow> string \<Rightarrow> string \<Rightarrow> string option" where
  "identityIndex st email phone =
     (if email \<noteq> [] \<and> emails st email \<noteq> None then emails st email
      else if phone \<noteq> [] then phones st phone
      else None)"

section \<open>Library functions and external collaborators\<close>

text \<open>
  \<open>validator.isEmail\<close>, \<open>parsePhoneNumberFromString\<close> of libphonenumber-js and the string
  methods \<open>toLowerCase\<close> and \<open>trim\<close> are not code of this repository: they are parameters
  of the model, and every theorem holds for whatever they compute. A parsed phone number
  carries the result of \<open>isValid()\<close> and its E.164 \<open>number\<close>.
\<close>

record phone_number =
  pn_isValid :: bool
  pn_number :: string

record libs =
  isEmail :: "string \<Rightarrow> bool"
  parsePhoneNumberFromString :: "string \<Rightarrow> phone_number option"
  toLowerCase :: "string \<Rightarrow> string"
  trim :: "string \<Rightarrow> string"

text \<open>The type \<open>OnboardingSettings\<close> of \<open>types.ts\<close>.\<close>

record settings =
  settings_id :: int
  signed_up_users :: int
  signed_up_user_limit :: int
  waitlist_limit :: int
  invite_code_limit :: int
  invite_code_length :: int
  signup_cutoff :: int
  allowed_registrations :: string

text \<open>
  The \<open>Error\<close> thrown by \<open>insertUser\<close>: \<open>WaitlistFull n\<close> has the message
  \<open>Waitlist is full (limit: n)\<close>.
\<close>

datatype js_error = WaitlistFull int

text \<open>
  The Supabase side, as the three remote procedures the controllers call:
  \<open>checkUserExists\<close> (which turns every failure into \<open>false\<close>),
  \<open>getCurrentOnboardingSettings\<close> (which throws on failure: \<open>Inl\<close> the text a
  controller's \<open>catch\<close> reads from the thrown value, \<open>error.message\<close> of an \<open>Error\<close> and
  \<open>Internal server error\<close> otherwise) and \<open>registerNewUser\<close> (the
  \<open>increment_user_count\<close> procedure; every failure is \<open>false\<close>).
\<close>

record registry =
  checkUserExists :: "string \<Rightarrow> bool"
  getCurrentOnboardingSettings :: "string + settings"
  registerNewUser :: "string \<Rightarrow> bool"

section \<open>\<open>insertUser\<close> of \<open>waitlistUtils.ts\<close>\<close>

record userData =
  ud_username :: string
  ud_metadata :: json

record insertResult =
  res_id :: string
  res_position :: int
  res_already_existed :: bool

definition invalidResult :: insertResult where
  "invalidResult = \<lparr>res_id = [], res_position = 0, res_already_existed = False\<rparr>"

text \<open>A nullable string is truthy when it is a non-empty string; \<open>s || ''\<close>.\<close>

fun str_truthy :: "string option \<Rightarrow> bool" where
  "str_truthy None = False"
| "str_truthy (Some s) = (s \<noteq> [])"

fun or_empty :: "string option \<Rightarrow> string" where
  "or_empty None = []"
| "or_empty (Some s) = s"

fun nullable :: "string option \<Rightarrow> json" where
  "nullable None = JNull"
| "nullable (Some s) = JStr s"

text \<open>
  The head of \<open>insertUser\<close>: the trimmed username is classified as an e-mail or a phone
  number. \<open>None\<close> is each of the two early returns of the sentinel result; otherwise the
  pair is \<open>(sanitizedEmail, sanitizedPhone)\<close>.
\<close>

definition sanitizeIdentifier :: "libs \<Rightarrow> string \<Rightarrow> (string option \<times> string option) option" where
  "sanitizeIdentifier L raw =
     (let username = trim L raw in
      case (if isEmail L username then Some (Some (toLowerCase L username), None)
            else (case parsePhoneNumberFromString L username of
                    Some phoneNumber \<Rightarrow>
                      if pn_isValid phoneNumber then Some (None, Some (pn_number phoneNumber))
                      else None
                  | None \<Rightarrow> None)) of
        None \<Rightarrow> None
      | Some (sanitizedEmail, sanitizedPhone) \<Rightarrow>
          if \<not> str_truthy sanitizedEmail \<and> \<not> str_truthy sanitizedPhone then None
          else Some (sanitizedEmail, sanitizedPhone))"

text \<open>\<open>phoneNumber?.isValid()\<close> of the parse of a string.\<close>

definition isValidPhone :: "libs \<Rightarrow> string \<Rightarrow> bool" where
  "isValidPhone L username =
     (case parsePhoneNumberFromString L username of
        Some phoneNumber \<Rightarrow> pn_isValid phoneNumber
      | None \<Rightarrow> False)"

text \<open>\<open>JSON.stringify\<close> leaves out a property whose value is \<open>undefined\<close>.\<close>

definition userDataToStore :: "string option \<Rightarrow> string option \<Rightarrow> json \<Rightarrow> json" where
  "userDataToStore sanitizedEmail sanitizedPhone metadata =
     JObj ([(''id'', JStr []), (''email'', nullable sanitizedEmail),
            (''phone'', nullable sanitizedPhone)]
           @ (if metadata = JUndefined then [] else [(''metadata'', metadata)]))"

text \<open>
  \<open>finalUserId\<close> is the value of \<open>uuidv4()\<close>, an input of the model. The result is the new
  store and either the thrown error or the returned \<open>InsertResult\<close>.
\<close>

definition insertUser ::
  "libs \<Rightarrow> store \<Rightarrow> string \<Rightarrow> userData \<Rightarrow> int \<Rightarrow> store \<times> (js_error + insertResult)" where
  "insertUser L st finalUserId data waitlistLimit =
     (case sanitizeIdentifier L (ud_username data) of
        None \<Rightarrow> (st, Inr invalidResult)
      | Some (sanitizedEmail, sanitizedPhone) \<Rightarrow>
          (let (st1, (pos, existsNum, returnedUserId)) =
                 insertUser_script st finalUserId (or_empty sanitizedEmail)
                   (or_empty sanitizedPhone) waitlistLimit
                   (userDataToStore sanitizedEmail sanitizedPhone (ud_metadata data))
           in if pos = -1 then (st1, Inl (WaitlistFull waitlistLimit))
              else
                (let actualUserId = (if existsNum = 1 then returnedUserId else finalUserId)
                 in (st1, Inr \<lparr>res_id = actualUserId, res_position = pos,
                                res_already_existed = (existsNum = 1)\<rparr>))))"

section \<open>Runs of the store\<close>

text \<open>One call of the \<open>insertUser\<close> script with its five arguments.\<close>

record insert_call =
  ic_id :: string
  ic_email :: string
  ic_phone :: string
  ic_limit :: int
  ic_json :: json

definition call_script :: "store \<Rightarrow> insert_call \<Rightarrow> store \<times> reply" where
  "call_script st c =
     insertUser_script st (ic_id c) (ic_email c) (ic_phone c) (ic_limit c) (ic_json c)"

text \<open>A sequence of calls, one after the other: the final store and the replies in order.\<close>

fun run_calls :: "store \<Rightarrow> insert_call list \<Rightarrow> store \<times> reply list" where
  "run_calls st [] = (st, [])"
| "run_calls st (c # cs) =
     (let (st1, r) = call_script st c;
          (st2, rs) = run_calls st1 cs
      in (st2, r # rs))"

text \<open>The replies of the calls that appended an entry, and the position of a reply.\<close>

definition admitted :: "reply list \<Rightarrow> reply list" where
  "admitted rs = filter (\<lambda>(position, existed, uid). existed = 0) rs"

definition reply_position :: "reply \<Rightarrow> int" where
  "reply_position r = fst r"

text \<open>The four operations of the store, for statements about any of them.\<close>

datatype store_op =
    InsertUser insert_call
  | GetPosition string
  | GetPositionByIdentifier string
  | IsOnWaitlist string

fun exec_op :: "store \<Rightarrow> store_op \<Rightarrow> store" where
  "exec_op st (InsertUser c) = fst (call_script st c)"
| "exec_op st (GetPosition i) = st"
| "exec_op st (GetPositionByIdentifier i) = st"
| "exec_op st (IsOnWaitlist i) = st"

section \<open>The controllers\<close>

record validation =
  v_isValid :: bool
  v_sanitizedIdentifier :: "string option"
  v_error :: "string option"

definition validateAndSanitizeUsername :: "libs \<Rightarrow> json \<Rightarrow> validation" where
  "validateAndSanitizeUsername L username =
     (case username of
        JStr identifier \<Rightarrow>
          if identifier = [] then
            \<lparr>v_isValid = False, v_sanitizedIdentifier = None, v_error = Some ''Username required''\<rparr>
          else if isEmail L identifier then
            \<lparr>v_isValid = True,
             v_sanitizedIdentifier = Some (trim L (toLowerCase L identifier)),
             v_error = None\<rparr>
          else
            (case parsePhoneNumberFromString L identifier of
               Some phoneNumber \<Rightarrow>
                 if \<not> pn_isValid phoneNumber then
                   \<lparr>v_isValid = False, v_sanitizedIdentifier = None,
                    v_error = Some ''Invalid phone number format or number is not valid''\<rparr>
                 else
                   \<lparr>v_isValid = True, v_sanitizedIdentifier = Some (pn_number phoneNumber),
                    v_error = None\<rparr>
             | None \<Rightarrow>
                 \<lparr>v_isValid = False, v_sanitizedIdentifier = None,
                  v_error = Some ''Invalid username format (must be email or phone)''\<rparr>)
      | _ \<Rightarrow>
          \<lparr>v_isValid = False, v_sanitizedIdentifier = None, v_error = Some ''Username required''\<rparr>)"

text \<open>
  The identifier a controller goes on with: \<open>None\<close> when the controller answers 400
  because \<open>!validation.isValid || !validation.sanitizedIdentifier\<close>.
\<close>

definition validIdentifier :: "validation \<Rightarrow> string option" where
  "validIdentifier v =
     (if \<not> v_isValid v \<or> \<not> str_truthy (v_sanitizedIdentifier v) then None
      else v_sanitizedIdentifier v)"

record response =
  resp_status :: nat
  resp_body :: json

text \<open>\<open>validation.error || 'Invalid input'\<close>.\<close>

definition validationError :: "validation \<Rightarrow> json" where
  "validationError v = JStr (if str_truthy (v_error v) then or_empty (v_error v) else ''Invalid input'')"

text \<open>A top-level property of a response's body, and a property of its \<open>metadata\<close>.\<close>

definition response_field :: "response \<Rightarrow> string \<Rightarrow> json" where
  "response_field r k = field (resp_body r) k"

definition response_meta :: "response \<Rightarrow> string \<Rightarrow> json" where
  "response_meta r k = field (field (resp_body r) ''metadata'') k"

definition addToWaitlistController ::
  "libs \<Rightarrow> registry \<Rightarrow> store \<Rightarrow> string \<Rightarrow> json \<Rightarrow> store \<times> response" where
  "addToWaitlistController L R st newId username =
     (if \<not> truthy username then
        (st, \<lparr>resp_status = 400, resp_body = JObj
               [(''success'', JBool False), (''position'', JNum 0),
                (''already_existed'', JBool False), (''error'', JStr ''Username is required''),
                (''metadata'', JObj [])]\<rparr>)
      else
        (let validation = validateAndSanitizeUsername L username in
         case validIdentifier validation of
           None \<Rightarrow>
             (st, \<lparr>resp_status = 400, resp_body = JObj
                    [(''already_registered'', JBool False), (''on_waitlist'', JBool False),
                     (''can_sign_up'', JBool False), (''position'', JNum 0),
                     (''metadata'', JObj [(''error'', validationError validation)])]\<rparr>)
         | Some identifier \<Rightarrow>
             (let internalError = \<lparr>resp_status = 500, resp_body = JObj
                    [(''success'', JBool False), (''position'', JNum 0),
                     (''error'', JStr ''Internal server error''), (''metadata'', JObj [])]\<rparr>
              in case getCurrentOnboardingSettings R of
                   Inl thrown \<Rightarrow> (st, internalError)
                 | Inr settings \<Rightarrow>
                     (case insertUser L st newId
                             \<lparr>ud_username = identifier, ud_metadata = JUndefined\<rparr>
                             (waitlist_limit settings) of
                        (st1, Inl thrown) \<Rightarrow> (st1, internalError)
                      | (st1, Inr result) \<Rightarrow>
                          if res_id result = [] then
                            (st1, \<lparr>resp_status = 200, resp_body = JObj
                                    [(''success'', JBool False), (''position'', JNum 0),
                                     (''already_existed'', JBool False),
                                     (''metadata'', JObj [])]\<rparr>)
                          else
                            (st1, \<lparr>resp_status = 200, resp_body = JObj
                                    [(''success'', JBool True),
                                     (''position'', JNum (res_position result)),
                                     (''already_existed'', JBool (res_already_existed result)),
                                     (''metadata'', JObj [])]\<rparr>)))))"


subsection \<open>Registration: the helpers of \<open>userManagementUtils\<close>\<close>

text \<open>
  The calls that can change something outside the request, in the order a request makes
  them: \<open>RegistryCommit u\<close> is the call \<open>registerNewUser(.., u, ..)\<close>, \<open>WaitlistInsert u\<close>
  the call \<open>insertUser(redis, {username: u}, ..)\<close>. A helper returns the new store, the
  calls it made and the response it sent.
\<close>

datatype effect = RegistryCommit string | WaitlistInsert string

fun is_insert :: "effect \<Rightarrow> bool" where
  "is_insert (WaitlistInsert u) = True"
| "is_insert (RegistryCommit u) = False"

fun is_commit :: "effect \<Rightarrow> bool" where
  "is_commit (RegistryCommit u) = True"
| "is_commit (WaitlistInsert u) = False"

type_synonym outcome_state = "store \<times> effect list \<times> response"

definition handleExistingUserRegistration :: "int \<Rightarrow> response" where
  "handleExistingUserRegistration waitlistPosition =
     \<lparr>resp_status = 200, resp_body = JObj
       [(''registered_signup'', JBool True), (''on_waitlist'', JBool (waitlistPosition > 0)),
        (''waitlist_position'', JNum waitlistPosition),
        (''metadata'', JObj [(''message'', JStr ''User is already registered'')])]\<rparr>"

definition handleUserLimitReached ::
  "libs \<Rightarrow> store \<Rightarrow> string \<Rightarrow> string \<Rightarrow> settings \<Rightarrow> outcome_state" where
  "handleUserLimitReached L st newId identifier settings =
     (case insertUser L st newId \<lparr>ud_username = identifier, ud_metadata = JUndefined\<rparr>
             (waitlist_limit settings) of
        (st1, Inr waitlistResult) \<Rightarrow>
          (st1, [WaitlistInsert identifier],
           \<lparr>resp_status = 200, resp_body = JObj
             [(''registered_signup'', JBool False),
              (''on_waitlist'', JBool (res_id waitlistResult \<noteq> [])),
              (''waitlist_position'', JNum (res_position waitlistResult)),
              (''metadata'', JObj
                 [(''message'', JStr (if res_id waitlistResult \<noteq> []
                                      then ''User limit reached, added/found on waitlist''
                                      else ''User limit reached, failed to add to waitlist'')),
                  (''already_existed_on_waitlist'',
                   JBool (res_already_existed waitlistResult))])]\<rparr>)
      | (st1, Inl thrown) \<Rightarrow>
          (st1, [WaitlistInsert identifier],
           \<lparr>resp_status = 500, resp_body = JObj
             [(''registered_signup'', JBool False), (''on_waitlist'', JBool False),
              (''waitlist_position'', JNum 0),
              (''metadata'', JObj
                 [(''error'', JStr ''Failed to add to waitlist during user limit check'')])]\<rparr>))"

definition handleWaitlistOnlyRegistration ::
  "libs \<Rightarrow> store \<Rightarrow> string \<Rightarrow> string \<Rightarrow> settings \<Rightarrow> bool \<Rightarrow> int \<Rightarrow> outcome_state" where
  "handleWaitlistOnlyRegistration L st newId identifier settings isUserOnWaitlist waitlistPosition =
     (if \<not> isUserOnWaitlist then
        (case insertUser L st newId \<lparr>ud_username = identifier, ud_metadata = JUndefined\<rparr>
                (waitlist_limit settings) of
           (st1, Inr waitlistResult) \<Rightarrow>
             (st1, [WaitlistInsert identifier],
              \<lparr>resp_status = 200, resp_body = JObj
                [(''registered_signup'', JBool False),
                 (''on_waitlist'', JBool (res_id waitlistResult \<noteq> [])),
                 (''waitlist_position'', JNum (res_position waitlistResult)),
                 (''metadata'', JObj
                    [(''message'', JStr ''Added to waitlist (waitlist only mode)''),
                     (''already_existed_on_waitlist'',
                      JBool (res_already_existed waitlistResult))])]\<rparr>)
         | (st1, Inl thrown) \<Rightarrow>
             (st1, [WaitlistInsert identifier],
              \<lparr>resp_status = 500, resp_body = JObj
                [(''registered_signup'', JBool False), (''on_waitlist'', JBool False),
                 (''waitlist_position'', JNum 0),
                 (''metadata'', JObj
                    [(''error'', JStr ''Failed to add to waitlist in waitlist-only mode'')])]\<rparr>))
      else
        (st, [],
         \<lparr>resp_status = 200, resp_body = JObj
           [(''registered_signup'', JBool False), (''on_waitlist'', JBool True),
            (''waitlist_position'', JNum waitlistPosition),
            (''metadata'', JObj
               [(''message'', JStr ''On waitlist, but not yet eligible for signup'')])]\<rparr>))"

text \<open>The response of a blocked registration, with one of the two messages.\<close>

definition blockedResponse :: "int \<Rightarrow> string \<Rightarrow> response" where
  "blockedResponse waitlistPosition message =
     \<lparr>resp_status = 200, resp_body = JObj
       [(''registered_signup'', JBool False), (''on_waitlist'', JBool True),
        (''waitlist_position'', JNum waitlistPosition),
        (''metadata'', JObj [(''message'', JStr message)])]\<rparr>"

definition negativeCutoffMessage :: string where
  "negativeCutoffMessage = ''Signup currently closed for waitlist users (negative cutoff)''"

definition beyondCutoffMessage :: string where
  "beyondCutoffMessage = ''On waitlist, but not yet eligible for signup based on cutoff''"

text \<open>
  \<open>checkWaitlistRegistrationBlocks\<close> returns \<open>true\<close> after sending a response, \<open>false\<close>
  otherwise: \<open>Some\<close> the response sent, or \<open>None\<close>.
\<close>

definition checkWaitlistRegistrationBlocks :: "int \<Rightarrow> settings \<Rightarrow> bool \<Rightarrow> response option" where
  "checkWaitlistRegistrationBlocks waitlistPosition settings isUserOnWaitlist =
     (if isUserOnWaitlist then
        (if signup_cutoff settings < 0 then
           Some (blockedResponse waitlistPosition negativeCutoffMessage)
         else if waitlistPosition > signup_cutoff settings then
           Some (blockedResponse waitlistPosition beyondCutoffMessage)
         else None)
      else None)"

definition attemptUserRegistration ::
  "registry \<Rightarrow> store \<Rightarrow> string \<Rightarrow> int \<Rightarrow> bool \<Rightarrow> outcome_state" where
  "attemptUserRegistration R st identifier waitlistPosition isUserOnWaitlist =
     (let registrationSuccess = registerNewUser R identifier in
      if registrationSuccess then
        (st, [RegistryCommit identifier],
         \<lparr>resp_status = 200, resp_body = JObj
           [(''registered_signup'', JBool True), (''on_waitlist'', JBool isUserOnWaitlist),
            (''waitlist_position'', JNum waitlistPosition),
            (''metadata'', JObj
               [(''message'', JStr (''User successfully registered''
                                    @ (if isUserOnWaitlist then '' (was on waitlist)'' else [])))])]\<rparr>)
      else
        (st, [RegistryCommit identifier],
         \<lparr>resp_status = 500, resp_body = JObj
           [(''registered_signup'', JBool False), (''on_waitlist'', JBool isUserOnWaitlist),
            (''waitlist_position'', JNum waitlistPosition),
            (''metadata'', JObj
               [(''error'', JStr ''Registration failed due to a database issue.'')])]\<rparr>))"

subsection \<open>\<open>registerUserController\<close>\<close>

text \<open>
  The two flags the controller computes in step 2 from the waitlist position and the
  settings (\<open>isUserOnWaitlist\<close> is \<open>waitlistPosition > 0\<close>).
\<close>

definition isWaitlistEligible :: "int \<Rightarrow> settings \<Rightarrow> bool" where
  "isWaitlistEligible waitlistPosition settings =
     (waitlistPosition > 0 \<and> signup_cutoff settings > 0
      \<and> waitlistPosition \<le> signup_cutoff settings)"

definition userLimitReached :: "settings \<Rightarrow> bool" where
  "userLimitReached settings =
     (signed_up_user_limit settings > 0
      \<and> signed_up_users settings \<ge> signed_up_user_limit settings)"

text \<open>
  Step 3 of the controller: the scenarios, from the three values fetched in step 2.
\<close>

definition registerUser_scenarios ::
  "libs \<Rightarrow> registry \<Rightarrow> store \<Rightarrow> string \<Rightarrow> string \<Rightarrow> bool \<Rightarrow> settings \<Rightarrow> int \<Rightarrow> outcome_state" where
  "registerUser_scenarios L R st newId identifier userExists settings waitlistPosition =
     (let isUserOnWaitlist = (waitlistPosition > 0) in
        if userExists then (st, [], handleExistingUserRegistration waitlistPosition)
        else if userLimitReached settings then
          handleUserLimitReached L st newId identifier settings
        else if allowed_registrations settings = ''waitlist''
                \<and> \<not> isWaitlistEligible waitlistPosition settings then
          handleWaitlistOnlyRegistration L st newId identifier settings isUserOnWaitlist
            waitlistPosition
        else
          (case checkWaitlistRegistrationBlocks waitlistPosition settings isUserOnWaitlist of
             Some sent \<Rightarrow> (st, [], sent)
           | None \<Rightarrow>
               attemptUserRegistration R st identifier waitlistPosition isUserOnWaitlist))"

definition registerUserController ::
  "libs \<Rightarrow> registry \<Rightarrow> store \<Rightarrow> string \<Rightarrow> json \<Rightarrow> outcome_state" where
  "registerUserController L R st newId rawUsername =
     (let validation = validateAndSanitizeUsername L rawUsername in
      case validIdentifier validation of
        None \<Rightarrow>
          (st, [],
           \<lparr>resp_status = 400, resp_body = JObj
             [(''registered_signup'', JBool False), (''on_waitlist'', JBool False),
              (''waitlist_position'', JNum 0),
              (''metadata'', JObj [(''error'', validationError validation)])]\<rparr>)
      | Some identifier \<Rightarrow>
          (case getCurrentOnboardingSettings R of
             Inl message \<Rightarrow>
               (st, [],
                \<lparr>resp_status = 500, resp_body = JObj
                  [(''registered_signup'', JBool False), (''on_waitlist'', JBool False),
                   (''waitlist_position'', JNum 0),
                   (''metadata'', JObj [(''error'', JStr message)])]\<rparr>)
           | Inr settings \<Rightarrow>
               registerUser_scenarios L R st newId identifier (checkUserExists R identifier)
                 settings (getPositionByIdentifier st identifier)))"

section \<open>The evaluator of the specification\<close>

text \<open>
  The outcomes, the cutoff test and the order of checks as the specification words them,
  over the fields of \<open>OnboardingSettings\<close>: \<open>registrationCap\<close> is \<open>signed_up_user_limit\<close>,
  \<open>registeredCount\<close> is \<open>signed_up_users\<close>, \<open>signupCutoff\<close> is \<open>signup_cutoff\<close> and the mode
  \<open>WAITLIST_ONLY\<close> is the value \<open>waitlist\<close> of \<open>allowed_registrations\<close>.
\<close>

datatype block_reason = NegativeCutoff | PositionBeyondCutoff

datatype outcome =
    AlreadyRegistered
  | CapacityExhausted
  | WaitlistOnlyIneligible
  | BlockedByCutoff block_reason
  | EligibleToRegister

definition cutoffEligible :: "int \<Rightarrow> settings \<Rightarrow> bool" where
  "cutoffEligible position policy =
     (position > 0 \<and> signup_cutoff policy \<ge> 0 \<and> position \<le> signup_cutoff policy)"

definition evaluate :: "bool \<Rightarrow> int \<Rightarrow> settings \<Rightarrow> outcome" where
  "evaluate alreadyRegistered position policy =
     (if alreadyRegistered then AlreadyRegistered
      else if signed_up_user_limit policy > 0
              \<and> signed_up_users policy \<ge> signed_up_user_limit policy then CapacityExhausted
      else if allowed_registrations policy = ''waitlist''
              \<and> \<not> cutoffEligible position policy then WaitlistOnlyIneligible
      else if position > 0 \<and> \<not> cutoffEligible position policy then
        BlockedByCutoff (if signup_cutoff policy < 0 then NegativeCutoff
                         else PositionBeyondCutoff)
      else EligibleToRegister)"

section \<open>Reading a response of the register-user flow\<close>

text \<open>
  The answer of a scenario that called \<open>insertUser\<close>: not registered, and either the
  position and the \<open>already_existed\<close> flag of the result, or the 500 answer when the call
  threw.
\<close>

definition deferral_answer :: "response \<Rightarrow> (js_error + insertResult) \<Rightarrow> bool" where
  "deferral_answer resp res =
     (response_field resp ''registered_signup'' = JBool False
      \<and> (case res of
            Inr r \<Rightarrow>
              resp_status resp = 200
              \<and> response_field resp ''waitlist_position'' = JNum (res_position r)
              \<and> response_field resp ''on_waitlist'' = JBool (res_id r \<noteq> [])
              \<and> response_meta resp ''already_existed_on_waitlist'' = JBool (res_already_existed r)
          | Inl thrown \<Rightarrow>
              resp_status resp = 500
              \<and> response_field resp ''waitlist_position'' = JNum 0
              \<and> response_field resp ''on_waitlist'' = JBool False
              \<and> response_meta resp ''already_existed_on_waitlist'' = JUndefined))"

text \<open>The answer of a scenario that reports the position read in step 2.\<close>

definition known_position_answer :: "response \<Rightarrow> int \<Rightarrow> bool" where
  "known_position_answer resp position =
     (resp_status resp = 200
      \<and> response_field resp ''registered_signup'' = JBool False
      \<and> response_field resp ''on_waitlist'' = JBool True
      \<and> response_field resp ''waitlist_position'' = JNum position
      \<and> response_meta resp ''already_existed_on_waitlist'' = JUndefined)"


section \<open>Sample inputs\<close>

text \<open>
  Concrete inputs on which the model is evaluated. \<open>scenarioA\<close> are the first two calls of
  Scenario A of the specification (capacity 2); \<open>sampleLibs\<close> stands in for the library
  functions where a concrete evaluation needs them, and no theorem about all inputs
  depends on it.
\<close>

definition emailCall :: "string \<Rightarrow> string \<Rightarrow> int \<Rightarrow> insert_call" where
  "emailCall ident email limit =
     \<lparr>ic_id = ident, ic_email = email, ic_phone = [], ic_limit = limit, ic_json = JNull\<rparr>"

definition scenarioA :: "insert_call list" where
  "scenarioA = [emailCall ''id-1'' ''a@x.com'' 2, emailCall ''id-2'' ''b@x.com'' 2]"

definition sampleLibs :: libs where
  "sampleLibs =
     \<lparr>isEmail = (\<lambda>s. CHR ''@'' \<in> set s),
      parsePhoneNumberFromString =
        (\<lambda>s. case s of
                [] \<Rightarrow> None
              | c # cs \<Rightarrow> if c = CHR ''+''
                          then Some \<lparr>pn_isValid = (length cs = 11), pn_number = s\<rparr>
                          else None),
      toLowerCase = (\<lambda>s. s),
      trim = (\<lambda>s. s)\<rparr>"

text \<open>
  Library functions under which the controllers' validation accepts \<open>A@x.com\<close> while
  \<open>insertUser\<close> rejects its lower-cased form: an e-mail test that is case sensitive.
\<close>

definition strictLibs :: libs where
  "strictLibs =
     \<lparr>isEmail = (\<lambda>s. s = ''A@x.com''),
      parsePhoneNumberFromString = (\<lambda>s. None),
      toLowerCase = (\<lambda>s. if s = ''A@x.com'' then ''a@x.com'' else s),
      trim = (\<lambda>s. s)\<rparr>"

definition sampleSettings :: settings where
  "sampleSettings =
     \<lparr>settings_id = 1, signed_up_users = 0, signed_up_user_limit = 0, waitlist_limit = 2,
      invite_code_limit = 0, invite_code_length = 6, signup_cutoff = 1,
      allowed_registrations = ''all''\<rparr>"

text \<open>
  The store of Scenario A after a third admission under a larger capacity, so that
  \<open>c@x.com\<close> is at position 3.
\<close>

definition threeStore :: store where
  "threeStore =
     \<lparr>waitlist = [''id-1'', ''id-2'', ''id-3''],
      emails = [''a@x.com'' \<mapsto> ''id-1'', ''b@x.com'' \<mapsto> ''id-2'', ''c@x.com'' \<mapsto> ''id-3''],
      phones = Map.empty,
      users = [''id-1'' \<mapsto> JNull, ''id-2'' \<mapsto> JNull, ''id-3'' \<mapsto> JNull]\<rparr>"

definition sampleRegistry :: "settings \<Rightarrow> bool \<Rightarrow> registry" where
  "sampleRegistry policy commits =
     \<lparr>checkUserExists = (\<lambda>u. False), getCurrentOnboardingSettings = Inr policy,
      registerNewUser = (\<lambda>u. commits)\<rparr>"

section \<open>Properties of the admission store\<close>

lemma ipairs_find_append_mem:
  "x \<in> set xs \<Longrightarrow> ipairs_find (xs @ ys) x i = ipairs_find xs x i"
  by (induction xs arbitrary: i) auto

lemma ipairs_find_bounds:
  "x \<in> set xs \<Longrightarrow> int i \<le> ipairs_find xs x i \<and> ipairs_find xs x i < int (i + length xs)"
proof (induction xs arbitrary: i)
  case Nil
  then show ?case by simp
next
  case (Cons a xs)
  show ?case
  proof (cases "a = x")
    case True
    then show ?thesis by simp
  next
    case False
    with Cons.prems have "x \<in> set xs" by simp
    from Cons.IH [OF this, of "Suc i"] False show ?thesis by simp
  qed
qed

lemma ipairs_find_nth:
  "x \<in> set xs \<Longrightarrow> xs ! (nat (ipairs_find xs x i) - i) = x"
proof (induction xs arbitrary: i)
  case Nil
  then show ?case by simp
next
  case (Cons a xs)
  show ?case
  proof (cases "a = x")
    case True
    then show ?thesis by simp
  next
    case False
    with Cons.prems have mem: "x \<in> set xs" by simp
    from ipairs_find_bounds [OF mem, of "Suc i"]
    have "Suc i \<le> nat (ipairs_find xs x (Suc i))" by linarith
    then have "nat (ipairs_find xs x (Suc i)) - i = Suc (nat (ipairs_find xs x (Suc i)) - Suc i)"
      by linarith
    with Cons.IH [OF mem, of "Suc i"] False show ?thesis by simp
  qed
qed

lemma ipairs_find_notin: "x \<notin> set xs \<Longrightarrow> ipairs_find xs x i = 0"
  by (induction xs arbitrary: i) auto

lemma insertUser_script_existing:
  "identityIndex st email phone = Some entryId \<Longrightarrow>
   insertUser_script st ident email phone limit j =
     (st\<lparr>users := (users st)(entryId \<mapsto> j)\<rparr>, (getPosition st entryId, 1, entryId))"
  by (auto simp: insertUser_script_def identityIndex_def getPosition_def Let_def
           split: if_splits option.splits)

lemma insertUser_script_full:
  "identityIndex st email phone = None \<Longrightarrow> int (length (waitlist st)) \<ge> limit \<Longrightarrow>
   insertUser_script st ident email phone limit j = (st, (-1, -1, []))"
  by (auto simp: insertUser_script_def identityIndex_def Let_def
           split: if_splits option.splits)

lemma insertUser_script_new:
  "identityIndex st email phone = None \<Longrightarrow> int (length (waitlist st)) < limit \<Longrightarrow>
   insertUser_script st ident email phone limit j =
     (st\<lparr>waitlist := waitlist st @ [ident],
         emails := (if email \<noteq> [] then (emails st)(email \<mapsto> ident) else emails st),
         phones := (if phone \<noteq> [] then (phones st)(phone \<mapsto> ident) else phones st),
         users := (users st)(ident \<mapsto> j)\<rparr>,
      (int (length (waitlist st)) + 1, 0, ident))"
  by (auto simp: insertUser_script_def identityIndex_def Let_def
           split: if_splits option.splits)

lemma call_script_cases:
  obtains (existing) entryId where "identityIndex st (ic_email c) (ic_phone c) = Some entryId"
      "waitlist (fst (call_script st c)) = waitlist st"
      "emails (fst (call_script st c)) = emails st"
      "phones (fst (call_script st c)) = phones st"
      "snd (call_script st c) = (getPosition st entryId, 1, entryId)"
  | (full) "identityIndex st (ic_email c) (ic_phone c) = None"
      "int (length (waitlist st)) \<ge> ic_limit c"
      "fst (call_script st c) = st"
      "snd (call_script st c) = (-1, -1, [])"
  | (new) "identityIndex st (ic_email c) (ic_phone c) = None"
      "int (length (waitlist st)) < ic_limit c"
      "waitlist (fst (call_script st c)) = waitlist st @ [ic_id c]"
      "snd (call_script st c) = (int (length (waitlist st)) + 1, 0, ic_id c)"
proof (cases "identityIndex st (ic_email c) (ic_phone c)")
  case (Some entryId)
  then show ?thesis
    using existing insertUser_script_existing [OF Some] by (simp add: call_script_def)
next
  case None
  show ?thesis
  proof (cases "int (length (waitlist st)) \<ge> ic_limit c")
    case True
    then show ?thesis using full None insertUser_script_full [OF None True]
      by (simp add: call_script_def)
  next
    case False
    then have lt: "int (length (waitlist st)) < ic_limit c" by simp
    show ?thesis using new None lt insertUser_script_new [OF None lt]
      by (simp add: call_script_def)
  qed
qed

lemma admitted_Cons:
  "admitted (r # rs) = (if fst (snd r) = 0 then r # admitted rs else admitted rs)"
  by (cases r) (simp add: admitted_def)

lemma admitted_Nil: "admitted [] = []"
  by (simp add: admitted_def)

declare run_calls.simps(2) [simp del]

lemma run_calls_Cons:
  "run_calls st (c # cs) =
     (fst (run_calls (fst (call_script st c)) cs),
      snd (call_script st c) # snd (run_calls (fst (call_script st c)) cs))"
  by (simp add: run_calls.simps(2) Let_def split: prod.splits)

text \<open>The queue after a run is the old queue followed by the ids of the admitted replies.\<close>

lemma run_calls_waitlist:
  "waitlist (fst (run_calls st cs)) =
     waitlist st @ map (\<lambda>r. snd (snd r)) (admitted (snd (run_calls st cs)))"
proof (induction cs arbitrary: st)
  case Nil
  then show ?case by (simp add: admitted_Nil)
next
  case (Cons c cs)
  show ?case
    by (cases rule: call_script_cases [of st c])
       (simp_all add: run_calls_Cons admitted_Cons Cons.IH)
qed

lemma run_calls_positions:
  "map reply_position (admitted (snd (run_calls st cs))) =
     map int [Suc (length (waitlist st)) ..< Suc (length (waitlist (fst (run_calls st cs))))]"
proof (induction cs arbitrary: st)
  case Nil
  then show ?case by (simp add: admitted_Nil)
next
  case (Cons c cs)
  show ?case
  proof (cases rule: call_script_cases [of st c])
    case (existing entryId)
    then show ?thesis using Cons.IH [of "fst (call_script st c)"]
      by (simp add: run_calls_Cons admitted_Cons del: upt_Suc)
  next
    case full
    then show ?thesis using Cons.IH [of "fst (call_script st c)"]
      by (simp add: run_calls_Cons admitted_Cons del: upt_Suc)
  next
    case new
    have le: "Suc (length (waitlist st)) \<le> length (waitlist (fst (run_calls (fst (call_script st c)) cs)))"
      using new by (simp add: run_calls_waitlist [of "fst (call_script st c)"])
    have "[Suc (length (waitlist st)) ..< Suc (length (waitlist (fst (run_calls (fst (call_script st c)) cs))))]
          = Suc (length (waitlist st)) # [Suc (Suc (length (waitlist st))) ..< Suc (length (waitlist (fst (run_calls (fst (call_script st c)) cs))))]"
      using le by (simp add: upt_conv_Cons del: upt_Suc)
    then show ?thesis using new Cons.IH [of "fst (call_script st c)"]
      by (simp add: run_calls_Cons admitted_Cons reply_position_def del: upt_Suc)
  qed
qed

lemma run_calls_capacity:
  "\<forall>c \<in> set cs. ic_limit c = K \<Longrightarrow> int (length (waitlist st)) \<le> K \<Longrightarrow>
   int (length (waitlist (fst (run_calls st cs)))) \<le> K"
proof (induction cs arbitrary: st)
  case Nil
  then show ?case by simp
next
  case (Cons c cs)
  have lim: "ic_limit c = K" and rest: "\<forall>c \<in> set cs. ic_limit c = K"
    using Cons.prems(1) by simp_all
  have "int (length (waitlist (fst (call_script st c)))) \<le> K"
    using Cons.prems(2) lim by (cases rule: call_script_cases [of st c]) simp_all
  from Cons.IH [OF rest this] show ?case by (simp add: run_calls_Cons)
qed

lemma run_calls_distinct:
  "distinct (map ic_id cs) \<Longrightarrow> distinct (waitlist st) \<Longrightarrow>
   set (waitlist st) \<inter> set (map ic_id cs) = {} \<Longrightarrow>
   distinct (waitlist (fst (run_calls st cs)))"
proof (induction cs arbitrary: st)
  case Nil
  then show ?case by simp
next
  case (Cons c cs)
  have d: "distinct (map ic_id cs)" and fresh: "ic_id c \<notin> set (map ic_id cs)"
    using Cons.prems(1) by simp_all
  have "distinct (waitlist (fst (call_script st c)))
        \<and> set (waitlist (fst (call_script st c))) \<inter> set (map ic_id cs) = {}"
    using Cons.prems(2,3) fresh by (cases rule: call_script_cases [of st c]) auto
  with Cons.IH [OF d] show ?case by (simp add: run_calls_Cons)
qed

lemma ipairs_find_distinct_nth:
  "distinct xs \<Longrightarrow> k < length xs \<Longrightarrow> ipairs_find xs (xs ! k) i = int (i + k)"
proof (induction xs arbitrary: i k)
  case Nil
  then show ?case by simp
next
  case (Cons a xs)
  show ?case
  proof (cases k)
    case 0
    then show ?thesis by simp
  next
    case (Suc k')
    with Cons.prems have "k' < length xs" "distinct xs" "xs ! k' \<noteq> a"
      by (auto simp: in_set_conv_nth)
    with Cons.IH [of k' "Suc i"] Suc show ?thesis by auto
  qed
qed

lemma positions_of_distinct:
  "distinct xs \<Longrightarrow> map (\<lambda>x. ipairs_find xs x 1) xs = map int [1 ..< Suc (length xs)]"
  by (rule nth_equalityI) (simp_all add: ipairs_find_distinct_nth del: upt_Suc)

lemma exec_op_prefix:
  "\<exists>ys. waitlist (exec_op st op) = waitlist st @ ys"
proof (cases op)
  case (InsertUser c)
  then show ?thesis by (cases rule: call_script_cases [of st c]) simp_all
qed simp_all

lemma exec_ops_prefix:
  "\<exists>ys. waitlist (foldl exec_op st ops) = waitlist st @ ys"
proof (induction ops arbitrary: st)
  case Nil
  then show ?case by simp
next
  case (Cons op ops)
  from exec_op_prefix [of st op] obtain ys where a: "waitlist (exec_op st op) = waitlist st @ ys" ..
  from Cons.IH [of "exec_op st op"] obtain zs
    where "waitlist (foldl exec_op (exec_op st op) ops) = waitlist (exec_op st op) @ zs" ..
  with a show ?case by simp
qed

lemma waitlist_emptyStore: "waitlist emptyStore = []"
  by (simp add: emptyStore_def)

lemma ipairs_find_nonneg: "0 \<le> ipairs_find xs x i"
  by (induction xs arbitrary: i) auto

lemma scenarioA_run:
  "run_calls emptyStore scenarioA =
     (\<lparr>waitlist = [''id-1'', ''id-2''],
       emails = [''a@x.com'' \<mapsto> ''id-1'', ''b@x.com'' \<mapsto> ''id-2''],
       phones = Map.empty,
       users = [''id-1'' \<mapsto> JNull, ''id-2'' \<mapsto> JNull]\<rparr>,
      [(1, 0, ''id-1''), (2, 0, ''id-2'')])"
  by (simp add: scenarioA_def emailCall_def emptyStore_def run_calls.simps call_script_def
        insertUser_script_def Let_def)

section \<open>The claims about the admission store\<close>

text \<open>
  Claim C1. The \<open>insertUser\<close> script, on every store and every argument: an identity that
  is indexed gets the indexed entry id back with its queue position (the result of
  \<open>getPosition\<close>, which for an id in the queue is its 1-based rank) and \<open>existed = 1\<close>, and
  the stored record of that id is overwritten, nothing else changing; an identity that
  is not indexed is refused with \<open>{-1, -1, ''}\<close> and an unchanged store when the queue
  length has reached the limit; otherwise the new id is appended, the returned position
  is the length of the queue after the append, \<open>existed = 0\<close>, the identity is indexed
  under the new id and the record is stored.
\<close>

theorem insertUser_script_contract:
  "(identityIndex st email phone = Some entryId \<longrightarrow>
      insertUser_script st ident email phone limit j =
        (st\<lparr>users := (users st)(entryId \<mapsto> j)\<rparr>, (getPosition st entryId, 1, entryId))
      \<and> (entryId \<in> set (waitlist st) \<longrightarrow>
           1 \<le> getPosition st entryId \<and> getPosition st entryId \<le> int (length (waitlist st))
           \<and> waitlist st ! (nat (getPosition st entryId) - 1) = entryId))
   \<and> (identityIndex st email phone = None \<and> int (length (waitlist st)) \<ge> limit \<longrightarrow>
      insertUser_script st ident email phone limit j = (st, (-1, -1, [])))
   \<and> (identityIndex st email phone = None \<and> int (length (waitlist st)) < limit \<longrightarrow>
      waitlist (fst (insertUser_script st ident email phone limit j)) = waitlist st @ [ident]
      \<and> snd (insertUser_script st ident email phone limit j) =
          (int (length (waitlist (fst (insertUser_script st ident email phone limit j)))), 0, ident)
      \<and> emails (fst (insertUser_script st ident email phone limit j)) =
          (if email \<noteq> [] then (emails st)(email \<mapsto> ident) else emails st)
      \<and> phones (fst (insertUser_script st ident email phone limit j)) =
          (if phone \<noteq> [] then (phones st)(phone \<mapsto> ident) else phones st)
      \<and> users (fst (insertUser_script st ident email phone limit j)) = (users st)(ident \<mapsto> j))"
proof (intro conjI impI)
  assume idx: "identityIndex st email phone = Some entryId"
  show "insertUser_script st ident email phone limit j =
        (st\<lparr>users := (users st)(entryId \<mapsto> j)\<rparr>, (getPosition st entryId, 1, entryId))"
    by (rule insertUser_script_existing [OF idx])
  assume mem: "entryId \<in> set (waitlist st)"
  from ipairs_find_bounds [OF mem, of 1]
  show "1 \<le> getPosition st entryId" "getPosition st entryId \<le> int (length (waitlist st))"
    by (simp_all add: getPosition_def)
  from ipairs_find_nth [OF mem, of 1]
  show "waitlist st ! (nat (getPosition st entryId) - 1) = entryId"
    by (simp add: getPosition_def)
next
  assume "identityIndex st email phone = None \<and> int (length (waitlist st)) \<ge> limit"
  then show "insertUser_script st ident email phone limit j = (st, (-1, -1, []))"
    by (simp add: insertUser_script_full)
next
  assume h: "identityIndex st email phone = None \<and> int (length (waitlist st)) < limit"
  then have eq: "insertUser_script st ident email phone limit j =
     (st\<lparr>waitlist := waitlist st @ [ident],
         emails := (if email \<noteq> [] then (emails st)(email \<mapsto> ident) else emails st),
         phones := (if phone \<noteq> [] then (phones st)(phone \<mapsto> ident) else phones st),
         users := (users st)(ident \<mapsto> j)\<rparr>,
      (int (length (waitlist st)) + 1, 0, ident))"
    by (simp add: insertUser_script_new)
  show "waitlist (fst (insertUser_script st ident email phone limit j)) = waitlist st @ [ident]"
    by (simp add: eq)
  show "snd (insertUser_script st ident email phone limit j) =
          (int (length (waitlist (fst (insertUser_script st ident email phone limit j)))), 0, ident)"
    by (simp add: eq)
  show "emails (fst (insertUser_script st ident email phone limit j)) =
          (if email \<noteq> [] then (emails st)(email \<mapsto> ident) else emails st)"
    by (simp add: eq)
  show "phones (fst (insertUser_script st ident email phone limit j)) =
          (if phone \<noteq> [] then (phones st)(phone \<mapsto> ident) else phones st)"
    by (simp add: eq)
  show "users (fst (insertUser_script st ident email phone limit j)) = (users st)(ident \<mapsto> j)"
    by (simp add: eq)
qed

theorem insertUser_script_contract_witness:
  "identityIndex emptyStore ''a@x.com'' [] = None
   \<and> int (length (waitlist emptyStore)) < 2
   \<and> snd (insertUser_script emptyStore ''id-1'' ''a@x.com'' [] 2 JNull) = (1, 0, ''id-1'')
   \<and> identityIndex (fst (run_calls emptyStore scenarioA)) ''a@x.com'' [] = Some ''id-1''
   \<and> ''id-1'' \<in> set (waitlist (fst (run_calls emptyStore scenarioA)))
   \<and> snd (insertUser_script (fst (run_calls emptyStore scenarioA)) ''id-9'' ''a@x.com'' [] 2 JNull)
       = (1, 1, ''id-1'')
   \<and> identityIndex (fst (run_calls emptyStore scenarioA)) ''c@x.com'' [] = None
   \<and> int (length (waitlist (fst (run_calls emptyStore scenarioA)))) \<ge> 2
   \<and> insertUser_script (fst (run_calls emptyStore scenarioA)) ''id-3'' ''c@x.com'' [] 2 JNull
       = (fst (run_calls emptyStore scenarioA), (-1, -1, []))"
proof -
  have a: "identityIndex emptyStore ''a@x.com'' [] = None"
    "int (length (waitlist emptyStore)) < 2"
    by (simp_all add: identityIndex_def emptyStore_def)
  have b: "identityIndex (fst (run_calls emptyStore scenarioA)) ''a@x.com'' [] = Some ''id-1''"
    "''id-1'' \<in> set (waitlist (fst (run_calls emptyStore scenarioA)))"
    "getPosition (fst (run_calls emptyStore scenarioA)) ''id-1'' = 1"
    by (simp_all add: scenarioA_run identityIndex_def getPosition_def)
  have c: "identityIndex (fst (run_calls emptyStore scenarioA)) ''c@x.com'' [] = None"
    "int (length (waitlist (fst (run_calls emptyStore scenarioA)))) \<ge> 2"
    by (simp_all add: scenarioA_run identityIndex_def)
  from insertUser_script_contract [of emptyStore "''a@x.com''" "[]" "''id-0''" "''id-1''" 2 JNull] a
  have d: "snd (insertUser_script emptyStore ''id-1'' ''a@x.com'' [] 2 JNull) = (1, 0, ''id-1'')"
    by (simp add: waitlist_emptyStore)
  from insertUser_script_contract [of "fst (run_calls emptyStore scenarioA)" "''a@x.com''" "[]"
      "''id-1''" "''id-9''" 2 JNull] b
  have e: "snd (insertUser_script (fst (run_calls emptyStore scenarioA)) ''id-9'' ''a@x.com'' [] 2 JNull)
       = (1, 1, ''id-1'')"
    by simp
  from insertUser_script_contract [of "fst (run_calls emptyStore scenarioA)" "''c@x.com''" "[]"
      "''id-0''" "''id-3''" 2 JNull] c
  have f: "insertUser_script (fst (run_calls emptyStore scenarioA)) ''id-3'' ''c@x.com'' [] 2 JNull
       = (fst (run_calls emptyStore scenarioA), (-1, -1, []))"
    by simp
  from a b c d e f show ?thesis by simp
qed

text \<open>
  Claim C2. From the empty store, under calls that all carry the same capacity \<open>K\<close> (a
  non-negative integer, as the policy snapshot has it), the queue is never longer than
  \<open>K\<close> after any number of the calls; and once \<open>K\<close> calls have admitted an entry, a call
  for an identity that is not indexed is refused with \<open>{-1, -1, ''}\<close> and leaves the
  store as it was.
\<close>

theorem capacity_enforcement:
  assumes "0 \<le> K" and "\<forall>c \<in> set cs. ic_limit c = K"
  shows "(\<forall>n. int (length (waitlist (fst (run_calls emptyStore (take n cs))))) \<le> K)
       \<and> (int (length (admitted (snd (run_calls emptyStore cs)))) = K
            \<and> identityIndex (fst (run_calls emptyStore cs)) email phone = None \<longrightarrow>
          insertUser_script (fst (run_calls emptyStore cs)) ident email phone K j =
            (fst (run_calls emptyStore cs), (-1, -1, [])))"
proof (intro conjI allI impI)
  fix n
  have "\<forall>c \<in> set (take n cs). ic_limit c = K"
    using assms(2) by (auto dest: in_set_takeD)
  moreover have "int (length (waitlist emptyStore)) \<le> K"
    using assms(1) by (simp add: emptyStore_def)
  ultimately show "int (length (waitlist (fst (run_calls emptyStore (take n cs))))) \<le> K"
    by (rule run_calls_capacity)
next
  assume h: "int (length (admitted (snd (run_calls emptyStore cs)))) = K
             \<and> identityIndex (fst (run_calls emptyStore cs)) email phone = None"
  have "length (waitlist (fst (run_calls emptyStore cs))) =
        length (admitted (snd (run_calls emptyStore cs)))"
    using run_calls_waitlist [of emptyStore cs] by (simp add: waitlist_emptyStore)
  with h have "int (length (waitlist (fst (run_calls emptyStore cs)))) \<ge> K" by simp
  with h show "insertUser_script (fst (run_calls emptyStore cs)) ident email phone K j =
            (fst (run_calls emptyStore cs), (-1, -1, []))"
    by (simp add: insertUser_script_full)
qed

theorem capacity_enforcement_witness:
  "(0::int) \<le> 2 \<and> map ic_limit scenarioA = [2, 2]
   \<and> int (length (waitlist (fst (run_calls emptyStore scenarioA)))) \<le> 2
   \<and> int (length (admitted (snd (run_calls emptyStore scenarioA)))) = 2
   \<and> identityIndex (fst (run_calls emptyStore scenarioA)) ''c@x.com'' [] = None
   \<and> snd (insertUser_script (fst (run_calls emptyStore scenarioA)) ''id-3'' ''c@x.com'' [] 2 JNull)
       = (-1, -1, [])"
proof -
  have a: "(0::int) \<le> 2" by simp
  have b: "\<forall>c \<in> set scenarioA. ic_limit c = 2"
    by (simp add: scenarioA_def emailCall_def)
  have c: "int (length (admitted (snd (run_calls emptyStore scenarioA)))) = 2"
    by (simp add: scenarioA_run admitted_def)
  have d: "identityIndex (fst (run_calls emptyStore scenarioA)) ''c@x.com'' [] = None"
    by (simp add: scenarioA_run identityIndex_def)
  from capacity_enforcement [OF a b, of "''c@x.com''" "[]" "''id-3''" JNull]
  have e: "(\<forall>n. int (length (waitlist (fst (run_calls emptyStore (take n scenarioA))))) \<le> 2)"
    and f: "insertUser_script (fst (run_calls emptyStore scenarioA)) ''id-3'' ''c@x.com'' [] 2 JNull =
            (fst (run_calls emptyStore scenarioA), (-1, -1, []))"
    using c d by simp_all
  from e have "int (length (waitlist (fst (run_calls emptyStore (take 2 scenarioA))))) \<le> 2" ..
  then have g: "int (length (waitlist (fst (run_calls emptyStore scenarioA)))) \<le> 2"
    by (simp add: scenarioA_def)
  have b': "map ic_limit scenarioA = [2, 2]"
    by (simp add: scenarioA_def emailCall_def)
  from a b' c d f g show ?thesis by simp
qed

text \<open>
  Claim C3. From the empty store, after any sequence of calls, the positions returned to
  the admitted entries are 1, 2, ..., the length of the queue, in this order, and the
  ids returned with them are the queue itself; when the generated ids are pairwise
  different (the promise of \<open>uuidv4\<close>), \<open>getPosition\<close> maps the queue onto
  1, ..., its length, each position once. From any store, no sequence of store
  operations changes the position of an id that is in the queue.
\<close>

theorem position_density:
  "map reply_position (admitted (snd (run_calls emptyStore cs))) =
     map int [1 ..< Suc (length (waitlist (fst (run_calls emptyStore cs))))]
   \<and> map (\<lambda>r. snd (snd r)) (admitted (snd (run_calls emptyStore cs))) =
       waitlist (fst (run_calls emptyStore cs))
   \<and> (distinct (map ic_id cs) \<longrightarrow>
        map (getPosition (fst (run_calls emptyStore cs))) (waitlist (fst (run_calls emptyStore cs))) =
          map int [1 ..< Suc (length (waitlist (fst (run_calls emptyStore cs))))])
   \<and> (entryId \<in> set (waitlist st) \<longrightarrow>
        getPosition (foldl exec_op st ops) entryId = getPosition st entryId)"
proof (intro conjI impI)
  show "map reply_position (admitted (snd (run_calls emptyStore cs))) =
     map int [1 ..< Suc (length (waitlist (fst (run_calls emptyStore cs))))]"
    using run_calls_positions [of emptyStore cs] by (simp add: waitlist_emptyStore del: upt_Suc)
  show "map (\<lambda>r. snd (snd r)) (admitted (snd (run_calls emptyStore cs))) =
       waitlist (fst (run_calls emptyStore cs))"
    using run_calls_waitlist [of emptyStore cs] by (simp add: waitlist_emptyStore)
next
  assume "distinct (map ic_id cs)"
  then have "distinct (waitlist (fst (run_calls emptyStore cs)))"
    by (rule run_calls_distinct) (simp_all add: waitlist_emptyStore)
  from positions_of_distinct [OF this]
  show "map (getPosition (fst (run_calls emptyStore cs))) (waitlist (fst (run_calls emptyStore cs))) =
          map int [1 ..< Suc (length (waitlist (fst (run_calls emptyStore cs))))]"
    by (simp add: getPosition_def [abs_def] del: upt_Suc)
next
  assume mem: "entryId \<in> set (waitlist st)"
  from exec_ops_prefix [of st ops] obtain ys
    where "waitlist (foldl exec_op st ops) = waitlist st @ ys" ..
  then show "getPosition (foldl exec_op st ops) entryId = getPosition st entryId"
    using mem by (simp add: getPosition_def ipairs_find_append_mem)
qed

theorem position_density_witness:
  "distinct (map ic_id scenarioA)
   \<and> map (getPosition (fst (run_calls emptyStore scenarioA)))
        (waitlist (fst (run_calls emptyStore scenarioA))) = [1, 2]
   \<and> ''id-1'' \<in> set (waitlist (fst (run_calls emptyStore scenarioA)))
   \<and> getPosition (foldl exec_op (fst (run_calls emptyStore scenarioA))
        [InsertUser (emailCall ''id-3'' ''c@x.com'' 5), GetPosition ''id-1'']) ''id-1'' = 1"
proof -
  have a: "distinct (map ic_id scenarioA)"
    by (simp add: scenarioA_def emailCall_def)
  have b: "''id-1'' \<in> set (waitlist (fst (run_calls emptyStore scenarioA)))"
    by (simp add: scenarioA_run)
  have c: "getPosition (fst (run_calls emptyStore scenarioA)) ''id-1'' = 1"
    by (simp add: scenarioA_run getPosition_def)
  have d: "[1 ..< Suc (length (waitlist (fst (run_calls emptyStore scenarioA))))] = [1, 2]"
    by (simp add: scenarioA_run)
  from position_density [of scenarioA "''id-1''" "fst (run_calls emptyStore scenarioA)"
      "[InsertUser (emailCall ''id-3'' ''c@x.com'' 5), GetPosition ''id-1'']"] a b c d
  show ?thesis by simp
qed

section \<open>The claims about \<open>insertUser\<close>\<close>

lemma sanitizeIdentifier_invalid:
  "\<not> isEmail L (trim L raw) \<Longrightarrow> \<not> isValidPhone L (trim L raw) \<Longrightarrow>
   sanitizeIdentifier L raw = None"
  by (simp add: sanitizeIdentifier_def isValidPhone_def Let_def split: option.splits)

lemma sanitizeIdentifier_Some:
  "sanitizeIdentifier L raw = Some (e, p) \<Longrightarrow>
   (or_empty e \<noteq> [] \<and> p = None) \<or> (e = None \<and> or_empty p \<noteq> [])"
  by (auto simp: sanitizeIdentifier_def Let_def split: option.splits if_splits)

lemma insertUser_invalid:
  "sanitizeIdentifier L (ud_username data) = None \<Longrightarrow>
   insertUser L st newId data limit = (st, Inr invalidResult)"
  by (simp add: insertUser_def)

lemma getPosition_nonneg: "0 \<le> getPosition st x"
  by (simp add: getPosition_def ipairs_find_nonneg)

lemma insertUser_existing:
  assumes "sanitizeIdentifier L (ud_username data) = Some (e, p)"
    and "identityIndex st (or_empty e) (or_empty p) = Some entryId"
  shows "insertUser L st newId data limit =
     (st\<lparr>users := (users st)(entryId \<mapsto> userDataToStore e p (ud_metadata data))\<rparr>,
      Inr \<lparr>res_id = entryId, res_position = getPosition st entryId, res_already_existed = True\<rparr>)"
proof -
  have "getPosition st entryId \<noteq> -1"
    using getPosition_nonneg [of st entryId] by simp
  then show ?thesis
    using assms by (simp add: insertUser_def insertUser_script_existing)
qed

lemma insertUser_full:
  assumes "sanitizeIdentifier L (ud_username data) = Some (e, p)"
    and "identityIndex st (or_empty e) (or_empty p) = None"
    and "int (length (waitlist st)) \<ge> limit"
  shows "insertUser L st newId data limit = (st, Inl (WaitlistFull limit))"
  using assms by (simp add: insertUser_def insertUser_script_full)

lemma insertUser_new:
  assumes "sanitizeIdentifier L (ud_username data) = Some (e, p)"
    and "identityIndex st (or_empty e) (or_empty p) = None"
    and "int (length (waitlist st)) < limit"
  shows "insertUser L st newId data limit =
     (st\<lparr>waitlist := waitlist st @ [newId],
         emails := (if or_empty e \<noteq> [] then (emails st)(or_empty e \<mapsto> newId) else emails st),
         phones := (if or_empty p \<noteq> [] then (phones st)(or_empty p \<mapsto> newId) else phones st),
         users := (users st)(newId \<mapsto> userDataToStore e p (ud_metadata data))\<rparr>,
      Inr \<lparr>res_id = newId, res_position = int (length (waitlist st)) + 1,
           res_already_existed = False\<rparr>)"
proof -
  have "int (length (waitlist st)) + 1 \<noteq> -1" by simp
  then show ?thesis
    using assms by (simp add: insertUser_def insertUser_script_new)
qed

text \<open>The four ways a call of \<open>insertUser\<close> can go.\<close>

lemma insertUser_cases:
  obtains (invalid) "sanitizeIdentifier L (ud_username data) = None"
      "insertUser L st newId data limit = (st, Inr invalidResult)"
  | (existing) e p entryId where "sanitizeIdentifier L (ud_username data) = Some (e, p)"
      "identityIndex st (or_empty e) (or_empty p) = Some entryId"
      "insertUser L st newId data limit =
         (st\<lparr>users := (users st)(entryId \<mapsto> userDataToStore e p (ud_metadata data))\<rparr>,
          Inr \<lparr>res_id = entryId, res_position = getPosition st entryId,
               res_already_existed = True\<rparr>)"
  | (full) e p where "sanitizeIdentifier L (ud_username data) = Some (e, p)"
      "identityIndex st (or_empty e) (or_empty p) = None"
      "int (length (waitlist st)) \<ge> limit"
      "insertUser L st newId data limit = (st, Inl (WaitlistFull limit))"
  | (new) e p where "sanitizeIdentifier L (ud_username data) = Some (e, p)"
      "identityIndex st (or_empty e) (or_empty p) = None"
      "int (length (waitlist st)) < limit"
      "insertUser L st newId data limit =
         (st\<lparr>waitlist := waitlist st @ [newId],
             emails := (if or_empty e \<noteq> [] then (emails st)(or_empty e \<mapsto> newId) else emails st),
             phones := (if or_empty p \<noteq> [] then (phones st)(or_empty p \<mapsto> newId) else phones st),
             users := (users st)(newId \<mapsto> userDataToStore e p (ud_metadata data))\<rparr>,
          Inr \<lparr>res_id = newId, res_position = int (length (waitlist st)) + 1,
               res_already_existed = False\<rparr>)"
proof (cases "sanitizeIdentifier L (ud_username data)")
  case None
  then show ?thesis using invalid insertUser_invalid by simp
next
  case (Some ep)
  obtain e p where ep: "ep = (e, p)" by (cases ep)
  note s = Some [unfolded ep]
  show ?thesis
  proof (cases "identityIndex st (or_empty e) (or_empty p)")
    case (Some entryId)
    then show ?thesis using existing s insertUser_existing [OF s Some] by simp
  next
    case None
    show ?thesis
    proof (cases "int (length (waitlist st)) \<ge> limit")
      case True
      then show ?thesis using full s None insertUser_full [OF s None True] by simp
    next
      case False
      then have lt: "int (length (waitlist st)) < limit" by simp
      show ?thesis using new s None lt insertUser_new [OF s None lt] by simp
    qed
  qed
qed

lemma sampleLibs_email:
  "sanitizeIdentifier sampleLibs ''c@x.com'' = Some (Some ''c@x.com'', None)"
  "sanitizeIdentifier sampleLibs ''a@x.com'' = Some (Some ''a@x.com'', None)"
  by (simp_all add: sanitizeIdentifier_def sampleLibs_def)

lemma ipairs_find_append_new:
  "x \<notin> set xs \<Longrightarrow> ipairs_find (xs @ [x]) x i = int (i + length xs)"
  by (induction xs arbitrary: i) auto

lemma identityIndex_users_update:
  "identityIndex (st\<lparr>users := u\<rparr>) email phone = identityIndex st email phone"
  by (simp add: identityIndex_def)

lemma sampleLibs_first_insert:
  "insertUser sampleLibs emptyStore ''id-1'' \<lparr>ud_username = ''a@x.com'', ud_metadata = JUndefined\<rparr> 2
   = (\<lparr>waitlist = [''id-1''], emails = [''a@x.com'' \<mapsto> ''id-1''], phones = Map.empty,
       users = [''id-1'' \<mapsto> userDataToStore (Some ''a@x.com'') None JUndefined]\<rparr>,
      Inr \<lparr>res_id = ''id-1'', res_position = 1, res_already_existed = False\<rparr>)"
proof -
  have a: "identityIndex emptyStore (or_empty (Some ''a@x.com'')) (or_empty None) = None"
    by (simp add: identityIndex_def emptyStore_def)
  have b: "int (length (waitlist emptyStore)) < 2"
    by (simp add: emptyStore_def)
  have c: "sanitizeIdentifier sampleLibs
             (ud_username \<lparr>ud_username = ''a@x.com'', ud_metadata = JUndefined\<rparr>)
           = Some (Some ''a@x.com'', None)"
    by (simp add: sampleLibs_email)
  from insertUser_new [OF c a b, of "''id-1''"] show ?thesis
    by (simp add: emptyStore_def)
qed

lemma strictLibs_validation:
  "validIdentifier (validateAndSanitizeUsername strictLibs (JStr ''A@x.com'')) = Some ''a@x.com''"
  by (simp add: validIdentifier_def validateAndSanitizeUsername_def strictLibs_def)

lemma strictLibs_rejects:
  "\<not> isEmail strictLibs (trim strictLibs ''a@x.com'')"
  "\<not> isValidPhone strictLibs (trim strictLibs ''a@x.com'')"
  by (simp_all add: strictLibs_def isValidPhone_def)

text \<open>
  Claim C4. A failing admission attempt leaves the store as it was. When the trimmed
  username is neither an e-mail for \<open>validator.isEmail\<close> nor a phone number that parses
  and is valid, \<open>insertUser\<close> returns its sentinel with the store it was given, and the
  result is the same whatever that store holds: the store is neither written nor read.
  When the identity is not indexed and the queue length has reached the limit, the call
  throws and the store (queue, both indexes, records) is the one it was given. And
  whenever \<open>insertUser\<close> throws or returns the sentinel, the store is unchanged.
\<close>

theorem failed_admission_leaves_store:
  "(\<not> isEmail L (trim L (ud_username data)) \<and> \<not> isValidPhone L (trim L (ud_username data)) \<longrightarrow>
      insertUser L st newId data limit = (st, Inr invalidResult)
      \<and> snd (insertUser L otherStore retryId data retryLimit) = snd (insertUser L st newId data limit))
   \<and> (sanitizeIdentifier L (ud_username data) = Some (e, p)
        \<and> identityIndex st (or_empty e) (or_empty p) = None
        \<and> int (length (waitlist st)) \<ge> limit \<longrightarrow>
      insertUser L st newId data limit = (st, Inl (WaitlistFull limit)))
   \<and> (isl (snd (insertUser L st newId data limit))
        \<or> snd (insertUser L st newId data limit) = Inr invalidResult \<longrightarrow>
      fst (insertUser L st newId data limit) = st)"
proof (intro conjI impI)
  assume "\<not> isEmail L (trim L (ud_username data)) \<and> \<not> isValidPhone L (trim L (ud_username data))"
  then have none: "sanitizeIdentifier L (ud_username data) = None"
    by (simp add: sanitizeIdentifier_invalid)
  show "insertUser L st newId data limit = (st, Inr invalidResult)"
    by (rule insertUser_invalid [OF none])
  show "snd (insertUser L otherStore retryId data retryLimit) = snd (insertUser L st newId data limit)"
    by (simp add: insertUser_invalid [OF none])
next
  assume "sanitizeIdentifier L (ud_username data) = Some (e, p)
        \<and> identityIndex st (or_empty e) (or_empty p) = None
        \<and> int (length (waitlist st)) \<ge> limit"
  then show "insertUser L st newId data limit = (st, Inl (WaitlistFull limit))"
    by (simp add: insertUser_full)
next
  assume h: "isl (snd (insertUser L st newId data limit))
        \<or> snd (insertUser L st newId data limit) = Inr invalidResult"
  show "fst (insertUser L st newId data limit) = st"
  proof (cases rule: insertUser_cases [of L data st newId limit])
    case invalid
    then show ?thesis by simp
  next
    case (existing e p entryId)
    with h show ?thesis by (simp add: invalidResult_def)
  next
    case (full e p)
    then show ?thesis by simp
  next
    case (new e p)
    with h show ?thesis by (simp add: invalidResult_def)
  qed
qed

theorem failed_admission_leaves_store_witness:
  "\<not> isEmail sampleLibs (trim sampleLibs ''not-an-id'')
   \<and> \<not> isValidPhone sampleLibs (trim sampleLibs ''not-an-id'')
   \<and> insertUser sampleLibs (fst (run_calls emptyStore scenarioA)) ''id-3''
        \<lparr>ud_username = ''not-an-id'', ud_metadata = JUndefined\<rparr> 2
       = (fst (run_calls emptyStore scenarioA), Inr invalidResult)
   \<and> sanitizeIdentifier sampleLibs ''c@x.com'' = Some (Some ''c@x.com'', None)
   \<and> identityIndex (fst (run_calls emptyStore scenarioA)) ''c@x.com'' [] = None
   \<and> int (length (waitlist (fst (run_calls emptyStore scenarioA)))) \<ge> 2
   \<and> insertUser sampleLibs (fst (run_calls emptyStore scenarioA)) ''id-3''
        \<lparr>ud_username = ''c@x.com'', ud_metadata = JUndefined\<rparr> 2
       = (fst (run_calls emptyStore scenarioA), Inl (WaitlistFull 2))"
proof -
  have a: "\<not> isEmail sampleLibs (trim sampleLibs ''not-an-id'')"
    "\<not> isValidPhone sampleLibs (trim sampleLibs ''not-an-id'')"
    by (simp_all add: sampleLibs_def isValidPhone_def)
  have b: "identityIndex (fst (run_calls emptyStore scenarioA)) ''c@x.com'' [] = None"
    "int (length (waitlist (fst (run_calls emptyStore scenarioA)))) \<ge> 2"
    by (simp_all add: scenarioA_run identityIndex_def)
  from failed_admission_leaves_store [of sampleLibs
      "\<lparr>ud_username = ''not-an-id'', ud_metadata = JUndefined\<rparr>"
      "fst (run_calls emptyStore scenarioA)" "''id-3''" 2] a
  have c: "insertUser sampleLibs (fst (run_calls emptyStore scenarioA)) ''id-3''
        \<lparr>ud_username = ''not-an-id'', ud_metadata = JUndefined\<rparr> 2
       = (fst (run_calls emptyStore scenarioA), Inr invalidResult)"
    by simp
  from failed_admission_leaves_store [of sampleLibs
      "\<lparr>ud_username = ''c@x.com'', ud_metadata = JUndefined\<rparr>"
      "fst (run_calls emptyStore scenarioA)" "''id-3''" 2 _ _ _ "Some ''c@x.com''" None]
    b sampleLibs_email(1)
  have d: "insertUser sampleLibs (fst (run_calls emptyStore scenarioA)) ''id-3''
        \<lparr>ud_username = ''c@x.com'', ud_metadata = JUndefined\<rparr> 2
       = (fst (run_calls emptyStore scenarioA), Inl (WaitlistFull 2))"
    by simp
  from a b c d sampleLibs_email(1) show ?thesis by simp
qed

text \<open>
  Claim C9. \<open>insertUser\<close> is idempotent per identity. In every store where the identity
  is indexed under an entry id whose position is \<open>position\<close>, a call returns that id and
  that position with \<open>already_existed = true\<close> and leaves the queue and both indexes
  as they were. And a call that admitted or found the identity, with a generated id that
  was not yet in the queue, can be repeated (with any new generated id and any limit):
  the repetition returns the same id and position, \<open>already_existed = true\<close>, and leaves
  the whole store as the first call left it.
\<close>

theorem insertUser_idempotent:
  "(sanitizeIdentifier L (ud_username data) = Some (e, p)
      \<and> identityIndex st (or_empty e) (or_empty p) = Some entryId
      \<and> getPosition st entryId = position \<longrightarrow>
        snd (insertUser L st newId data limit) =
          Inr \<lparr>res_id = entryId, res_position = position, res_already_existed = True\<rparr>
        \<and> waitlist (fst (insertUser L st newId data limit)) = waitlist st
        \<and> emails (fst (insertUser L st newId data limit)) = emails st
        \<and> phones (fst (insertUser L st newId data limit)) = phones st)
   \<and> (snd (insertUser L st newId data limit) = Inr r \<and> res_id r \<noteq> []
        \<and> newId \<notin> set (waitlist st) \<longrightarrow>
        insertUser L (fst (insertUser L st newId data limit)) retryId data retryLimit =
          (fst (insertUser L st newId data limit), Inr (r\<lparr>res_already_existed := True\<rparr>)))"
proof (intro conjI impI)
  assume h: "sanitizeIdentifier L (ud_username data) = Some (e, p)
      \<and> identityIndex st (or_empty e) (or_empty p) = Some entryId
      \<and> getPosition st entryId = position"
  then have eq: "insertUser L st newId data limit =
     (st\<lparr>users := (users st)(entryId \<mapsto> userDataToStore e p (ud_metadata data))\<rparr>,
      Inr \<lparr>res_id = entryId, res_position = position, res_already_existed = True\<rparr>)"
    using insertUser_existing [of L data e p st entryId newId limit] by simp
  show "snd (insertUser L st newId data limit) =
          Inr \<lparr>res_id = entryId, res_position = position, res_already_existed = True\<rparr>"
    by (simp add: eq)
  show "waitlist (fst (insertUser L st newId data limit)) = waitlist st"
    by (simp add: eq)
  show "emails (fst (insertUser L st newId data limit)) = emails st"
    by (simp add: eq)
  show "phones (fst (insertUser L st newId data limit)) = phones st"
    by (simp add: eq)
next
  assume h: "snd (insertUser L st newId data limit) = Inr r \<and> res_id r \<noteq> []
        \<and> newId \<notin> set (waitlist st)"
  show "insertUser L (fst (insertUser L st newId data limit)) retryId data retryLimit =
          (fst (insertUser L st newId data limit), Inr (r\<lparr>res_already_existed := True\<rparr>))"
  proof (cases rule: insertUser_cases [of L data st newId limit])
    case invalid
    with h show ?thesis by (auto simp: invalidResult_def)
  next
    case (existing e p entryId)
    let ?st1 = "st\<lparr>users := (users st)(entryId \<mapsto> userDataToStore e p (ud_metadata data))\<rparr>"
    have idx: "identityIndex ?st1 (or_empty e) (or_empty p) = Some entryId"
      using existing(2) by (simp add: identityIndex_users_update)
    have pos: "getPosition ?st1 entryId = getPosition st entryId"
      by (simp add: getPosition_def)
    have same: "?st1\<lparr>users := (users ?st1)(entryId \<mapsto> userDataToStore e p (ud_metadata data))\<rparr> = ?st1"
      by simp
    from insertUser_existing [OF existing(1) idx, of retryId retryLimit] existing(3) h pos same
    show ?thesis by auto
  next
    case (full e p)
    with h show ?thesis by simp
  next
    case (new e p)
    let ?j = "userDataToStore e p (ud_metadata data)"
    let ?st1 = "st\<lparr>waitlist := waitlist st @ [newId],
             emails := (if or_empty e \<noteq> [] then (emails st)(or_empty e \<mapsto> newId) else emails st),
             phones := (if or_empty p \<noteq> [] then (phones st)(or_empty p \<mapsto> newId) else phones st),
             users := (users st)(newId \<mapsto> ?j)\<rparr>"
    from sanitizeIdentifier_Some [OF new(1)]
    have idx: "identityIndex ?st1 (or_empty e) (or_empty p) = Some newId"
      by (auto simp: identityIndex_def)
    have pos: "getPosition ?st1 newId = int (length (waitlist st)) + 1"
      using h by (simp add: getPosition_def ipairs_find_append_new)
    have same: "?st1\<lparr>users := (users ?st1)(newId \<mapsto> ?j)\<rparr> = ?st1"
      by simp
    from insertUser_existing [OF new(1) idx, of retryId retryLimit] new(4) h pos same
    show ?thesis by auto
  qed
qed

theorem insertUser_idempotent_witness:
  "sanitizeIdentifier sampleLibs ''a@x.com'' = Some (Some ''a@x.com'', None)
   \<and> identityIndex (fst (run_calls emptyStore scenarioA)) ''a@x.com'' [] = Some ''id-1''
   \<and> getPosition (fst (run_calls emptyStore scenarioA)) ''id-1'' = 1
   \<and> snd (insertUser sampleLibs (fst (run_calls emptyStore scenarioA)) ''id-7''
        \<lparr>ud_username = ''a@x.com'', ud_metadata = JUndefined\<rparr> 2)
       = Inr \<lparr>res_id = ''id-1'', res_position = 1, res_already_existed = True\<rparr>
   \<and> snd (insertUser sampleLibs emptyStore ''id-1''
        \<lparr>ud_username = ''a@x.com'', ud_metadata = JUndefined\<rparr> 2)
       = Inr \<lparr>res_id = ''id-1'', res_position = 1, res_already_existed = False\<rparr>
   \<and> ''id-1'' \<notin> set (waitlist emptyStore)
   \<and> snd (insertUser sampleLibs
        (fst (insertUser sampleLibs emptyStore ''id-1''
           \<lparr>ud_username = ''a@x.com'', ud_metadata = JUndefined\<rparr> 2))
        ''id-8'' \<lparr>ud_username = ''a@x.com'', ud_metadata = JUndefined\<rparr> 2)
       = Inr \<lparr>res_id = ''id-1'', res_position = 1, res_already_existed = True\<rparr>"
proof -
  let ?d = "\<lparr>ud_username = ''a@x.com'', ud_metadata = JUndefined\<rparr>"
  have a: "identityIndex (fst (run_calls emptyStore scenarioA)) ''a@x.com'' [] = Some ''id-1''"
    "getPosition (fst (run_calls emptyStore scenarioA)) ''id-1'' = 1"
    by (simp_all add: scenarioA_run identityIndex_def getPosition_def)
  have b: "snd (insertUser sampleLibs emptyStore ''id-1'' ?d 2)
       = Inr \<lparr>res_id = ''id-1'', res_position = 1, res_already_existed = False\<rparr>"
    by (simp add: sampleLibs_first_insert)
  have c: "''id-1'' \<notin> set (waitlist emptyStore)"
    by (simp add: emptyStore_def)
  from insertUser_idempotent [where L = sampleLibs and data = ?d and e = "Some ''a@x.com''"
      and p = None and st = "fst (run_calls emptyStore scenarioA)" and entryId = "''id-1''"
      and position = 1 and newId = "''id-7''" and limit = 2] a sampleLibs_email(2)
  have d: "snd (insertUser sampleLibs (fst (run_calls emptyStore scenarioA)) ''id-7'' ?d 2)
       = Inr \<lparr>res_id = ''id-1'', res_position = 1, res_already_existed = True\<rparr>"
    by simp
  from insertUser_idempotent [where L = sampleLibs and data = ?d and st = emptyStore
      and newId = "''id-1''" and limit = 2 and retryId = "''id-8''" and retryLimit = 2
      and r = "\<lparr>res_id = ''id-1'', res_position = 1, res_already_existed = False\<rparr>"] b c
  have e: "snd (insertUser sampleLibs (fst (insertUser sampleLibs emptyStore ''id-1'' ?d 2))
        ''id-8'' ?d 2)
       = Inr \<lparr>res_id = ''id-1'', res_position = 1, res_already_existed = True\<rparr>"
    by simp
  from a b c d e sampleLibs_email(2) show ?thesis by simp
qed

text \<open>
  Claim C10. The two failures are signalled differently. For a username that is neither
  a valid e-mail nor a valid phone number, \<open>insertUser\<close> returns the sentinel
  \<open>{id: '', position: 0, already_existed: false}\<close>; the add-to-waitlist controller,
  whenever \<open>insertUser\<close> returns a result with an empty id, answers 200 with
  \<open>success = false\<close>, position 0; a new identity that finds the queue at its limit makes
  \<open>insertUser\<close> throw.
\<close>

theorem invalid_sentinel_full_throws:
  "(\<not> isEmail L (trim L (ud_username data)) \<and> \<not> isValidPhone L (trim L (ud_username data)) \<longrightarrow>
      snd (insertUser L st newId data limit) =
        Inr \<lparr>res_id = [], res_position = 0, res_already_existed = False\<rparr>)
   \<and> (truthy username
        \<and> validIdentifier (validateAndSanitizeUsername L username) = Some sanitized
        \<and> getCurrentOnboardingSettings R = Inr policy
        \<and> snd (insertUser L st newId \<lparr>ud_username = sanitized, ud_metadata = JUndefined\<rparr>
                 (waitlist_limit policy)) = Inr result
        \<and> res_id result = [] \<longrightarrow>
      snd (addToWaitlistController L R st newId username) =
        \<lparr>resp_status = 200, resp_body = JObj
          [(''success'', JBool False), (''position'', JNum 0),
           (''already_existed'', JBool False), (''metadata'', JObj [])]\<rparr>)
   \<and> (sanitizeIdentifier L (ud_username data) = Some (e, p)
        \<and> identityIndex st (or_empty e) (or_empty p) = None
        \<and> int (length (waitlist st)) \<ge> limit \<longrightarrow>
      snd (insertUser L st newId data limit) = Inl (WaitlistFull limit))"
proof (intro conjI impI)
  assume "\<not> isEmail L (trim L (ud_username data)) \<and> \<not> isValidPhone L (trim L (ud_username data))"
  then have "sanitizeIdentifier L (ud_username data) = None"
    by (simp add: sanitizeIdentifier_invalid)
  then show "snd (insertUser L st newId data limit) =
        Inr \<lparr>res_id = [], res_position = 0, res_already_existed = False\<rparr>"
    by (simp add: insertUser_invalid invalidResult_def)
next
  assume h: "truthy username
        \<and> validIdentifier (validateAndSanitizeUsername L username) = Some sanitized
        \<and> getCurrentOnboardingSettings R = Inr policy
        \<and> snd (insertUser L st newId \<lparr>ud_username = sanitized, ud_metadata = JUndefined\<rparr>
                 (waitlist_limit policy)) = Inr result
        \<and> res_id result = []"
  obtain st1 where "insertUser L st newId \<lparr>ud_username = sanitized, ud_metadata = JUndefined\<rparr>
                 (waitlist_limit policy) = (st1, Inr result)"
    using h by (cases "insertUser L st newId \<lparr>ud_username = sanitized, ud_metadata = JUndefined\<rparr>
                 (waitlist_limit policy)") simp
  with h show "snd (addToWaitlistController L R st newId username) =
        \<lparr>resp_status = 200, resp_body = JObj
          [(''success'', JBool False), (''position'', JNum 0),
           (''already_existed'', JBool False), (''metadata'', JObj [])]\<rparr>"
    by (simp add: addToWaitlistController_def Let_def)
next
  assume "sanitizeIdentifier L (ud_username data) = Some (e, p)
        \<and> identityIndex st (or_empty e) (or_empty p) = None
        \<and> int (length (waitlist st)) \<ge> limit"
  then show "snd (insertUser L st newId data limit) = Inl (WaitlistFull limit)"
    by (simp add: insertUser_full)
qed

theorem invalid_sentinel_full_throws_witness:
  "\<not> isEmail strictLibs (trim strictLibs ''a@x.com'')
   \<and> \<not> isValidPhone strictLibs (trim strictLibs ''a@x.com'')
   \<and> snd (insertUser strictLibs emptyStore ''id-1''
        \<lparr>ud_username = ''a@x.com'', ud_metadata = JUndefined\<rparr> 2) =
        Inr \<lparr>res_id = [], res_position = 0, res_already_existed = False\<rparr>
   \<and> truthy (JStr ''A@x.com'')
   \<and> validIdentifier (validateAndSanitizeUsername strictLibs (JStr ''A@x.com'')) = Some ''a@x.com''
   \<and> getCurrentOnboardingSettings (sampleRegistry sampleSettings True) = Inr sampleSettings
   \<and> snd (addToWaitlistController strictLibs (sampleRegistry sampleSettings True) emptyStore
        ''id-1'' (JStr ''A@x.com'')) =
        \<lparr>resp_status = 200, resp_body = JObj
          [(''success'', JBool False), (''position'', JNum 0),
           (''already_existed'', JBool False), (''metadata'', JObj [])]\<rparr>
   \<and> sanitizeIdentifier sampleLibs ''c@x.com'' = Some (Some ''c@x.com'', None)
   \<and> identityIndex (fst (run_calls emptyStore scenarioA)) ''c@x.com'' [] = None
   \<and> int (length (waitlist (fst (run_calls emptyStore scenarioA)))) \<ge> 2
   \<and> snd (insertUser sampleLibs (fst (run_calls emptyStore scenarioA)) ''id-3''
        \<lparr>ud_username = ''c@x.com'', ud_metadata = JUndefined\<rparr> 2) = Inl (WaitlistFull 2)"
proof -
  let ?d = "\<lparr>ud_username = ''a@x.com'', ud_metadata = JUndefined\<rparr>"
  let ?R = "sampleRegistry sampleSettings True"
  have lim: "waitlist_limit sampleSettings = 2" by (simp add: sampleSettings_def)
  have reg: "getCurrentOnboardingSettings ?R = Inr sampleSettings"
    by (simp add: sampleRegistry_def)
  from invalid_sentinel_full_throws [where L = strictLibs and data = ?d and st = emptyStore
      and newId = "''id-1''" and limit = 2] strictLibs_rejects
  have a: "snd (insertUser strictLibs emptyStore ''id-1'' ?d 2) =
        Inr \<lparr>res_id = [], res_position = 0, res_already_existed = False\<rparr>"
    by simp
  from invalid_sentinel_full_throws [where L = strictLibs and username = "JStr ''A@x.com''"
      and sanitized = "''a@x.com''" and R = ?R and policy = sampleSettings and st = emptyStore
      and newId = "''id-1''"
      and result = "\<lparr>res_id = [], res_position = 0, res_already_existed = False\<rparr>"]
    a strictLibs_validation reg lim
  have b: "snd (addToWaitlistController strictLibs ?R emptyStore ''id-1'' (JStr ''A@x.com'')) =
        \<lparr>resp_status = 200, resp_body = JObj
          [(''success'', JBool False), (''position'', JNum 0),
           (''already_existed'', JBool False), (''metadata'', JObj [])]\<rparr>"
    by simp
  have c: "identityIndex (fst (run_calls emptyStore scenarioA)) ''c@x.com'' [] = None"
    "int (length (waitlist (fst (run_calls emptyStore scenarioA)))) \<ge> 2"
    by (simp_all add: scenarioA_run identityIndex_def)
  from invalid_sentinel_full_throws [where L = sampleLibs
      and data = "\<lparr>ud_username = ''c@x.com'', ud_metadata = JUndefined\<rparr>"
      and st = "fst (run_calls emptyStore scenarioA)" and newId = "''id-3''" and limit = 2
      and e = "Some ''c@x.com''" and p = None]
    c sampleLibs_email(1)
  have d: "snd (insertUser sampleLibs (fst (run_calls emptyStore scenarioA)) ''id-3''
        \<lparr>ud_username = ''c@x.com'', ud_metadata = JUndefined\<rparr> 2) = Inl (WaitlistFull 2)"
    by simp
  from strictLibs_rejects a strictLibs_validation reg b c d sampleLibs_email(1)
  show ?thesis by simp
qed

section \<open>The claims about eligibility and registration\<close>






lemma sampleLibs_validation:
  "validIdentifier (validateAndSanitizeUsername sampleLibs (JStr ''a@x.com'')) = Some ''a@x.com''"
  "validIdentifier (validateAndSanitizeUsername sampleLibs (JStr ''c@x.com'')) = Some ''c@x.com''"
  "validIdentifier (validateAndSanitizeUsername sampleLibs (JStr ''z@x.com'')) = Some ''z@x.com''"
  by (simp_all add: validIdentifier_def validateAndSanitizeUsername_def sampleLibs_def)

lemma threeStore_positions:
  "getPositionByIdentifier threeStore ''a@x.com'' = 1"
  "getPositionByIdentifier threeStore ''c@x.com'' = 3"
  by (simp_all add: getPositionByIdentifier_def threeStore_def)

lemma sampleRegistry_simps:
  "checkUserExists (sampleRegistry policy commits) u = False"
  "getCurrentOnboardingSettings (sampleRegistry policy commits) = Inr policy"
  "registerNewUser (sampleRegistry policy commits) u = commits"
  by (simp_all add: sampleRegistry_def)




text \<open>
  Claim C6. The scenarios of \<open>registerUserController\<close> are the evaluator of the
  specification, first match winning in its order: already registered; then capacity
  exhausted (\<open>signed_up_user_limit > 0\<close> and \<open>signed_up_users >= signed_up_user_limit\<close>);
  then waitlist-only mode for an identity that is not cutoff-eligible; then, for a
  position above 0 that is not cutoff-eligible, the block, with the negative-cutoff
  message when the cutoff is negative and the beyond-cutoff message otherwise; and
  registration otherwise. Each outcome is handled by its own helper.
\<close>

theorem registerUser_order_of_checks:
  "registerUser_scenarios L R st newId ident userExists policy position =
     (case evaluate userExists position policy of
        AlreadyRegistered \<Rightarrow> (st, [], handleExistingUserRegistration position)
      | CapacityExhausted \<Rightarrow> handleUserLimitReached L st newId ident policy
      | WaitlistOnlyIneligible \<Rightarrow>
          handleWaitlistOnlyRegistration L st newId ident policy (position > 0) position
      | BlockedByCutoff NegativeCutoff \<Rightarrow>
          (st, [], blockedResponse position negativeCutoffMessage)
      | BlockedByCutoff PositionBeyondCutoff \<Rightarrow>
          (st, [], blockedResponse position beyondCutoffMessage)
      | EligibleToRegister \<Rightarrow> attemptUserRegistration R st ident position (position > 0))"
proof -
  have elig: "isWaitlistEligible position policy = cutoffEligible position policy"
    by (auto simp: isWaitlistEligible_def cutoffEligible_def)
  show ?thesis
    unfolding registerUser_scenarios_def evaluate_def elig userLimitReached_def Let_def
    by (auto simp: checkWaitlistRegistrationBlocks_def cutoffEligible_def)
qed

theorem registerUser_order_of_checks_witness:
  "evaluate False 3 (sampleSettings\<lparr>signup_cutoff := -1\<rparr>) = BlockedByCutoff NegativeCutoff
   \<and> registerUser_scenarios sampleLibs (sampleRegistry (sampleSettings\<lparr>signup_cutoff := -1\<rparr>) True)
        threeStore ''id-4'' ''c@x.com'' False (sampleSettings\<lparr>signup_cutoff := -1\<rparr>) 3
       = (threeStore, [], blockedResponse 3 negativeCutoffMessage)
   \<and> evaluate False 3 (sampleSettings\<lparr>signup_cutoff := 2\<rparr>) = BlockedByCutoff PositionBeyondCutoff
   \<and> registerUser_scenarios sampleLibs (sampleRegistry (sampleSettings\<lparr>signup_cutoff := 2\<rparr>) True)
        threeStore ''id-4'' ''c@x.com'' False (sampleSettings\<lparr>signup_cutoff := 2\<rparr>) 3
       = (threeStore, [], blockedResponse 3 beyondCutoffMessage)
   \<and> evaluate True 3 sampleSettings = AlreadyRegistered
   \<and> registerUser_scenarios sampleLibs (sampleRegistry sampleSettings True)
        threeStore ''id-4'' ''c@x.com'' True sampleSettings 3
       = (threeStore, [], handleExistingUserRegistration 3)"
proof -
  have a: "evaluate False 3 (sampleSettings\<lparr>signup_cutoff := -1\<rparr>) = BlockedByCutoff NegativeCutoff"
    by (simp add: evaluate_def sampleSettings_def cutoffEligible_def)
  have b: "evaluate False 3 (sampleSettings\<lparr>signup_cutoff := 2\<rparr>) = BlockedByCutoff PositionBeyondCutoff"
    by (simp add: evaluate_def sampleSettings_def cutoffEligible_def)
  have c: "evaluate True 3 sampleSettings = AlreadyRegistered"
    by (simp add: evaluate_def)
  from registerUser_order_of_checks [where L = sampleLibs
      and R = "sampleRegistry (sampleSettings\<lparr>signup_cutoff := -1\<rparr>) True" and st = threeStore
      and newId = "''id-4''" and ident = "''c@x.com''" and userExists = False
      and policy = "sampleSettings\<lparr>signup_cutoff := -1\<rparr>" and position = 3] a
  have d: "registerUser_scenarios sampleLibs (sampleRegistry (sampleSettings\<lparr>signup_cutoff := -1\<rparr>) True)
        threeStore ''id-4'' ''c@x.com'' False (sampleSettings\<lparr>signup_cutoff := -1\<rparr>) 3
       = (threeStore, [], blockedResponse 3 negativeCutoffMessage)"
    by simp
  from registerUser_order_of_checks [where L = sampleLibs
      and R = "sampleRegistry (sampleSettings\<lparr>signup_cutoff := 2\<rparr>) True" and st = threeStore
      and newId = "''id-4''" and ident = "''c@x.com''" and userExists = False
      and policy = "sampleSettings\<lparr>signup_cutoff := 2\<rparr>" and position = 3] b
  have e: "registerUser_scenarios sampleLibs (sampleRegistry (sampleSettings\<lparr>signup_cutoff := 2\<rparr>) True)
        threeStore ''id-4'' ''c@x.com'' False (sampleSettings\<lparr>signup_cutoff := 2\<rparr>) 3
       = (threeStore, [], blockedResponse 3 beyondCutoffMessage)"
    by simp
  from registerUser_order_of_checks [where L = sampleLibs
      and R = "sampleRegistry sampleSettings True" and st = threeStore
      and newId = "''id-4''" and ident = "''c@x.com''" and userExists = True
      and policy = sampleSettings and position = 3] c
  have f: "registerUser_scenarios sampleLibs (sampleRegistry sampleSettings True)
        threeStore ''id-4'' ''c@x.com'' True sampleSettings 3
       = (threeStore, [], handleExistingUserRegistration 3)"
    by simp
  from a b c d e f show ?thesis by simp
qed

lemma handleUserLimitReached_effects:
  "fst (handleUserLimitReached L st newId ident policy) =
     fst (insertUser L st newId \<lparr>ud_username = ident, ud_metadata = JUndefined\<rparr> (waitlist_limit policy))
   \<and> fst (snd (handleUserLimitReached L st newId ident policy)) = [WaitlistInsert ident]"
  by (simp add: handleUserLimitReached_def split: prod.splits sum.splits)

lemma handleWaitlistOnly_new_effects:
  "fst (handleWaitlistOnlyRegistration L st newId ident policy False position) =
     fst (insertUser L st newId \<lparr>ud_username = ident, ud_metadata = JUndefined\<rparr> (waitlist_limit policy))
   \<and> fst (snd (handleWaitlistOnlyRegistration L st newId ident policy False position)) =
       [WaitlistInsert ident]"
  by (simp add: handleWaitlistOnlyRegistration_def split: prod.splits sum.splits)

lemma handleUserLimitReached_response:
  "insertUser L st newId \<lparr>ud_username = ident, ud_metadata = JUndefined\<rparr> (waitlist_limit policy)
     = (st1, res) \<Longrightarrow>
   snd (snd (handleUserLimitReached L st newId ident policy)) =
     (case res of
        Inr r \<Rightarrow> \<lparr>resp_status = 200, resp_body = JObj
             [(''registered_signup'', JBool False),
              (''on_waitlist'', JBool (res_id r \<noteq> [])),
              (''waitlist_position'', JNum (res_position r)),
              (''metadata'', JObj
                 [(''message'', JStr (if res_id r \<noteq> []
                                      then ''User limit reached, added/found on waitlist''
                                      else ''User limit reached, failed to add to waitlist'')),
                  (''already_existed_on_waitlist'', JBool (res_already_existed r))])]\<rparr>
      | Inl thrown \<Rightarrow> \<lparr>resp_status = 500, resp_body = JObj
             [(''registered_signup'', JBool False), (''on_waitlist'', JBool False),
              (''waitlist_position'', JNum 0),
              (''metadata'', JObj
                 [(''error'', JStr ''Failed to add to waitlist during user limit check'')])]\<rparr>)"
  by (simp add: handleUserLimitReached_def split: sum.splits)

lemma handleWaitlistOnly_new_response:
  "insertUser L st newId \<lparr>ud_username = ident, ud_metadata = JUndefined\<rparr> (waitlist_limit policy)
     = (st1, res) \<Longrightarrow>
   snd (snd (handleWaitlistOnlyRegistration L st newId ident policy False position)) =
     (case res of
        Inr r \<Rightarrow> \<lparr>resp_status = 200, resp_body = JObj
                [(''registered_signup'', JBool False),
                 (''on_waitlist'', JBool (res_id r \<noteq> [])),
                 (''waitlist_position'', JNum (res_position r)),
                 (''metadata'', JObj
                    [(''message'', JStr ''Added to waitlist (waitlist only mode)''),
                     (''already_existed_on_waitlist'', JBool (res_already_existed r))])]\<rparr>
      | Inl thrown \<Rightarrow> \<lparr>resp_status = 500, resp_body = JObj
                [(''registered_signup'', JBool False), (''on_waitlist'', JBool False),
                 (''waitlist_position'', JNum 0),
                 (''metadata'', JObj
                    [(''error'', JStr ''Failed to add to waitlist in waitlist-only mode'')])]\<rparr>)"
  by (simp add: handleWaitlistOnlyRegistration_def split: sum.splits)

lemma deferral_limit:
  "deferral_answer (snd (snd (handleUserLimitReached L st newId ident policy)))
     (snd (insertUser L st newId \<lparr>ud_username = ident, ud_metadata = JUndefined\<rparr> (waitlist_limit policy)))"
proof -
  obtain st1 res where eq: "insertUser L st newId \<lparr>ud_username = ident, ud_metadata = JUndefined\<rparr>
      (waitlist_limit policy) = (st1, res)" by fastforce
  show ?thesis
    unfolding handleUserLimitReached_response [OF eq] eq
    by (cases res) (simp_all add: deferral_answer_def response_field_def response_meta_def)
qed

lemma deferral_waitlist_only:
  "deferral_answer (snd (snd (handleWaitlistOnlyRegistration L st newId ident policy False position)))
     (snd (insertUser L st newId \<lparr>ud_username = ident, ud_metadata = JUndefined\<rparr> (waitlist_limit policy)))"
proof -
  obtain st1 res where eq: "insertUser L st newId \<lparr>ud_username = ident, ud_metadata = JUndefined\<rparr>
      (waitlist_limit policy) = (st1, res)" by fastforce
  show ?thesis
    unfolding handleWaitlistOnly_new_response [OF eq] eq
    by (cases res) (simp_all add: deferral_answer_def response_field_def response_meta_def)
qed

text \<open>The scenarios, one case per outcome of the evaluator.\<close>

lemma scenarios_cases:
  obtains (registered) "userExists" "evaluate userExists position policy = AlreadyRegistered"
      "registerUser_scenarios L R st newId ident userExists policy position =
         (st, [], handleExistingUserRegistration position)"
  | (capacity) "\<not> userExists" "evaluate userExists position policy = CapacityExhausted"
      "registerUser_scenarios L R st newId ident userExists policy position =
         handleUserLimitReached L st newId ident policy"
  | (waitlist_only) "\<not> userExists"
      "evaluate userExists position policy = WaitlistOnlyIneligible"
      "registerUser_scenarios L R st newId ident userExists policy position =
         handleWaitlistOnlyRegistration L st newId ident policy (position > 0) position"
  | (blocked) reason where "\<not> userExists" "position > 0"
      "evaluate userExists position policy = BlockedByCutoff reason"
      "registerUser_scenarios L R st newId ident userExists policy position =
         (st, [], blockedResponse position
                    (case reason of NegativeCutoff \<Rightarrow> negativeCutoffMessage
                     | PositionBeyondCutoff \<Rightarrow> beyondCutoffMessage))"
  | (eligible) "\<not> userExists" "evaluate userExists position policy = EligibleToRegister"
      "registerUser_scenarios L R st newId ident userExists policy position =
         attemptUserRegistration R st ident position (position > 0)"
proof -
  have elig: "isWaitlistEligible position policy = cutoffEligible position policy"
    by (auto simp: isWaitlistEligible_def cutoffEligible_def)
  have ev: "evaluate ue position policy =
     (if ue then AlreadyRegistered
      else if userLimitReached policy then CapacityExhausted
      else if allowed_registrations policy = ''waitlist''
              \<and> \<not> cutoffEligible position policy then WaitlistOnlyIneligible
      else if position > 0 \<and> \<not> cutoffEligible position policy then
        BlockedByCutoff (if signup_cutoff policy < 0 then NegativeCutoff
                         else PositionBeyondCutoff)
      else EligibleToRegister)" for ue
    by (simp add: evaluate_def userLimitReached_def)
  have blocks: "checkWaitlistRegistrationBlocks position policy (position > 0) =
     (if position > 0 \<and> \<not> cutoffEligible position policy then
        Some (blockedResponse position
               (if signup_cutoff policy < 0 then negativeCutoffMessage else beyondCutoffMessage))
      else None)"
    by (auto simp: checkWaitlistRegistrationBlocks_def cutoffEligible_def)
  have blocksT: "\<not> cutoffEligible position policy \<Longrightarrow> position > 0 \<Longrightarrow>
     checkWaitlistRegistrationBlocks position policy True =
       Some (blockedResponse position
               (if signup_cutoff policy < 0 then negativeCutoffMessage else beyondCutoffMessage))"
    by (auto simp: checkWaitlistRegistrationBlocks_def cutoffEligible_def)
  note sc = registerUser_scenarios_def Let_def elig blocks blocksT
  show ?thesis
  proof (cases "userExists")
    case True
    then show ?thesis by (intro registered) (simp_all add: ev sc)
  next
    case notreg: False
    show ?thesis
    proof (cases "userLimitReached policy")
      case True
      with notreg show ?thesis by (intro capacity) (simp_all add: ev sc)
    next
      case nolimit: False
      show ?thesis
      proof (cases "allowed_registrations policy = ''waitlist''
                    \<and> \<not> cutoffEligible position policy")
        case True
        with notreg nolimit show ?thesis by (intro waitlist_only) (simp_all add: ev sc)
      next
        case open_mode: False
        show ?thesis
        proof (cases "position > 0 \<and> \<not> cutoffEligible position policy")
          case True
          with notreg nolimit open_mode show ?thesis
            by (intro blocked [of "if signup_cutoff policy < 0 then NegativeCutoff
                                   else PositionBeyondCutoff"])
               (simp_all add: ev sc)
        next
          case False
          with notreg nolimit open_mode show ?thesis
            by (intro eligible) (auto simp: ev sc)
        qed
      qed
    qed
  qed
qed

text \<open>
  Claim C7, as the code has it. When the outcome is capacity exhausted, or waitlist-only
  ineligible for an identity that is not on the waitlist, the flow calls \<open>insertUser\<close>
  once for the identifier with the waitlist limit of the settings, the store becomes the
  one that call leaves, and the answer is not registered: it carries the position and
  the \<open>already_existed\<close> flag of the result, or is the 500 answer with position 0 when
  the call throws. When the outcome is waitlist-only ineligible for an identity already
  on the waitlist, or blocked by the cutoff, the flow calls nothing, leaves the store as
  it was and answers 200, not registered, on the waitlist at the position it read, with
  no \<open>already_existed\<close> flag.
\<close>

theorem deferral_enqueues_when_needed:
  "(evaluate userExists position policy = CapacityExhausted
      \<or> evaluate userExists position policy = WaitlistOnlyIneligible \<and> position \<le> 0 \<longrightarrow>
        fst (registerUser_scenarios L R st newId ident userExists policy position) =
          fst (insertUser L st newId \<lparr>ud_username = ident, ud_metadata = JUndefined\<rparr>
                 (waitlist_limit policy))
        \<and> fst (snd (registerUser_scenarios L R st newId ident userExists policy position)) =
            [WaitlistInsert ident]
        \<and> deferral_answer
            (snd (snd (registerUser_scenarios L R st newId ident userExists policy position)))
            (snd (insertUser L st newId \<lparr>ud_username = ident, ud_metadata = JUndefined\<rparr>
                   (waitlist_limit policy))))
   \<and> (evaluate userExists position policy = WaitlistOnlyIneligible \<and> position > 0
      \<or> evaluate userExists position policy = BlockedByCutoff reason \<longrightarrow>
        fst (registerUser_scenarios L R st newId ident userExists policy position) = st
        \<and> fst (snd (registerUser_scenarios L R st newId ident userExists policy position)) = []
        \<and> known_position_answer
            (snd (snd (registerUser_scenarios L R st newId ident userExists policy position)))
            position)"
proof (intro conjI impI)
  assume h: "evaluate userExists position policy = CapacityExhausted
      \<or> evaluate userExists position policy = WaitlistOnlyIneligible \<and> position \<le> 0"
  then have eq: "registerUser_scenarios L R st newId ident userExists policy position =
      handleUserLimitReached L st newId ident policy
    \<or> registerUser_scenarios L R st newId ident userExists policy position =
      handleWaitlistOnlyRegistration L st newId ident policy False position"
    by (cases rule: scenarios_cases [of userExists position policy L R st newId ident]) auto
  from eq show "fst (registerUser_scenarios L R st newId ident userExists policy position) =
          fst (insertUser L st newId \<lparr>ud_username = ident, ud_metadata = JUndefined\<rparr>
                 (waitlist_limit policy))"
    using handleUserLimitReached_effects handleWaitlistOnly_new_effects by metis
  from eq show "fst (snd (registerUser_scenarios L R st newId ident userExists policy position)) =
            [WaitlistInsert ident]"
    using handleUserLimitReached_effects handleWaitlistOnly_new_effects by metis
  from eq show "deferral_answer
            (snd (snd (registerUser_scenarios L R st newId ident userExists policy position)))
            (snd (insertUser L st newId \<lparr>ud_username = ident, ud_metadata = JUndefined\<rparr>
                   (waitlist_limit policy)))"
    using deferral_limit deferral_waitlist_only by metis
next
  assume h: "evaluate userExists position policy = WaitlistOnlyIneligible \<and> position > 0
      \<or> evaluate userExists position policy = BlockedByCutoff reason"
  then have eq: "registerUser_scenarios L R st newId ident userExists policy position =
      handleWaitlistOnlyRegistration L st newId ident policy True position
    \<or> registerUser_scenarios L R st newId ident userExists policy position =
      (st, [], blockedResponse position negativeCutoffMessage)
    \<or> registerUser_scenarios L R st newId ident userExists policy position =
      (st, [], blockedResponse position beyondCutoffMessage)"
    by (cases rule: scenarios_cases [of userExists position policy L R st newId ident])
       (auto split: block_reason.splits)
  have a: "handleWaitlistOnlyRegistration L st newId ident policy True position =
     (st, [], \<lparr>resp_status = 200, resp_body = JObj
           [(''registered_signup'', JBool False), (''on_waitlist'', JBool True),
            (''waitlist_position'', JNum position),
            (''metadata'', JObj
               [(''message'', JStr ''On waitlist, but not yet eligible for signup'')])]\<rparr>)"
    by (simp add: handleWaitlistOnlyRegistration_def)
  from eq show "fst (registerUser_scenarios L R st newId ident userExists policy position) = st"
    by (auto simp: a)
  from eq show "fst (snd (registerUser_scenarios L R st newId ident userExists policy position)) = []"
    by (auto simp: a)
  from eq show "known_position_answer
            (snd (snd (registerUser_scenarios L R st newId ident userExists policy position)))
            position"
    by (auto simp: a known_position_answer_def blockedResponse_def response_field_def
          response_meta_def)
qed

text \<open>
  Claim C7 as stated fails: with cutoff 2, \<open>c@x.com\<close> at position 3 is blocked by the
  cutoff, and the controller answers without calling \<open>insertUser\<close> and without saying
  whether the identity was newly admitted.
\<close>

theorem blocked_without_enqueue_counterexample:
  "evaluate (checkUserExists (sampleRegistry (sampleSettings\<lparr>signup_cutoff := 2\<rparr>) True) ''c@x.com'')
      (getPositionByIdentifier threeStore ''c@x.com'') (sampleSettings\<lparr>signup_cutoff := 2\<rparr>)
     = BlockedByCutoff PositionBeyondCutoff
   \<and> registerUserController sampleLibs (sampleRegistry (sampleSettings\<lparr>signup_cutoff := 2\<rparr>) True)
        threeStore ''id-4'' (JStr ''c@x.com'')
     = (threeStore, [], blockedResponse 3 beyondCutoffMessage)
   \<and> WaitlistInsert ''c@x.com'' \<notin> set (fst (snd (registerUserController sampleLibs
        (sampleRegistry (sampleSettings\<lparr>signup_cutoff := 2\<rparr>) True) threeStore ''id-4''
        (JStr ''c@x.com''))))
   \<and> response_meta (blockedResponse 3 beyondCutoffMessage) ''already_existed_on_waitlist''
     = JUndefined"
proof -
  let ?P = "sampleSettings\<lparr>signup_cutoff := 2\<rparr>"
  let ?R = "sampleRegistry ?P True"
  have a: "evaluate (checkUserExists ?R ''c@x.com'') (getPositionByIdentifier threeStore ''c@x.com'') ?P
     = BlockedByCutoff PositionBeyondCutoff"
    by (simp add: sampleRegistry_simps threeStore_positions evaluate_def cutoffEligible_def
          sampleSettings_def)
  have b: "registerUser_scenarios sampleLibs ?R threeStore ''id-4'' ''c@x.com'' False ?P 3
     = (threeStore, [], blockedResponse 3 beyondCutoffMessage)"
    by (simp add: registerUser_scenarios_def userLimitReached_def isWaitlistEligible_def
          checkWaitlistRegistrationBlocks_def sampleSettings_def)
  have c: "registerUserController sampleLibs ?R threeStore ''id-4'' (JStr ''c@x.com'')
     = (threeStore, [], blockedResponse 3 beyondCutoffMessage)"
    by (simp add: registerUserController_def sampleLibs_validation sampleRegistry_simps
          threeStore_positions b)
  have d: "response_meta (blockedResponse 3 beyondCutoffMessage) ''already_existed_on_waitlist''
     = JUndefined"
    by (simp add: response_meta_def blockedResponse_def)
  from a c d show ?thesis by simp
qed

theorem deferral_enqueues_when_needed_witness:
  "evaluate False 0 (sampleSettings\<lparr>signed_up_user_limit := 10, signed_up_users := 10\<rparr>)
     = CapacityExhausted
   \<and> fst (snd (registerUser_scenarios sampleLibs
        (sampleRegistry (sampleSettings\<lparr>signed_up_user_limit := 10, signed_up_users := 10\<rparr>) True)
        emptyStore ''id-1'' ''a@x.com'' False
        (sampleSettings\<lparr>signed_up_user_limit := 10, signed_up_users := 10\<rparr>) 0))
     = [WaitlistInsert ''a@x.com'']
   \<and> waitlist (fst (registerUser_scenarios sampleLibs
        (sampleRegistry (sampleSettings\<lparr>signed_up_user_limit := 10, signed_up_users := 10\<rparr>) True)
        emptyStore ''id-1'' ''a@x.com'' False
        (sampleSettings\<lparr>signed_up_user_limit := 10, signed_up_users := 10\<rparr>) 0))
     = [''id-1'']
   \<and> response_field (snd (snd (registerUser_scenarios sampleLibs
        (sampleRegistry (sampleSettings\<lparr>signed_up_user_limit := 10, signed_up_users := 10\<rparr>) True)
        emptyStore ''id-1'' ''a@x.com'' False
        (sampleSettings\<lparr>signed_up_user_limit := 10, signed_up_users := 10\<rparr>) 0)))
        ''waitlist_position''
     = JNum 1
   \<and> evaluate False 3 (sampleSettings\<lparr>signup_cutoff := 2\<rparr>) = BlockedByCutoff PositionBeyondCutoff
   \<and> fst (snd (registerUser_scenarios sampleLibs
        (sampleRegistry (sampleSettings\<lparr>signup_cutoff := 2\<rparr>) True)
        threeStore ''id-4'' ''c@x.com'' False (sampleSettings\<lparr>signup_cutoff := 2\<rparr>) 3))
     = []
   \<and> response_field (snd (snd (registerUser_scenarios sampleLibs
        (sampleRegistry (sampleSettings\<lparr>signup_cutoff := 2\<rparr>) True)
        threeStore ''id-4'' ''c@x.com'' False (sampleSettings\<lparr>signup_cutoff := 2\<rparr>) 3)))
        ''waitlist_position''
     = JNum 3"
proof -
  let ?F = "sampleSettings\<lparr>signed_up_user_limit := 10, signed_up_users := 10\<rparr>"
  let ?P = "sampleSettings\<lparr>signup_cutoff := 2\<rparr>"
  have lim: "waitlist_limit ?F = 2" by (simp add: sampleSettings_def)
  have a: "evaluate False 0 ?F = CapacityExhausted"
    by (simp add: evaluate_def sampleSettings_def)
  have b: "evaluate False 3 ?P = BlockedByCutoff PositionBeyondCutoff"
    by (simp add: evaluate_def sampleSettings_def cutoffEligible_def)
  from deferral_enqueues_when_needed [where userExists = False and position = 0 and policy = ?F
      and L = sampleLibs and R = "sampleRegistry ?F True" and st = emptyStore
      and newId = "''id-1''" and ident = "''a@x.com''"] a
  have c: "fst (snd (registerUser_scenarios sampleLibs (sampleRegistry ?F True)
             emptyStore ''id-1'' ''a@x.com'' False ?F 0)) = [WaitlistInsert ''a@x.com'']"
    and d: "waitlist (fst (registerUser_scenarios sampleLibs (sampleRegistry ?F True)
             emptyStore ''id-1'' ''a@x.com'' False ?F 0)) = [''id-1'']"
    and e: "response_field (snd (snd (registerUser_scenarios sampleLibs (sampleRegistry ?F True)
             emptyStore ''id-1'' ''a@x.com'' False ?F 0))) ''waitlist_position'' = JNum 1"
    by (simp_all add: lim sampleLibs_first_insert deferral_answer_def)
  from deferral_enqueues_when_needed [where userExists = False and position = 3 and policy = ?P
      and L = sampleLibs and R = "sampleRegistry ?P True" and st = threeStore
      and newId = "''id-4''" and ident = "''c@x.com''" and reason = PositionBeyondCutoff] b
  have f: "fst (snd (registerUser_scenarios sampleLibs (sampleRegistry ?P True)
             threeStore ''id-4'' ''c@x.com'' False ?P 3)) = []"
    and g: "response_field (snd (snd (registerUser_scenarios sampleLibs (sampleRegistry ?P True)
             threeStore ''id-4'' ''c@x.com'' False ?P 3))) ''waitlist_position'' = JNum 3"
    by (simp_all add: known_position_answer_def)
  from a b c d e f g show ?thesis by simp
qed

lemma attemptUserRegistration_effects:
  "fst (attemptUserRegistration R st ident position onWaitlist) = st
   \<and> fst (snd (attemptUserRegistration R st ident position onWaitlist)) = [RegistryCommit ident]
   \<and> resp_status (snd (snd (attemptUserRegistration R st ident position onWaitlist))) =
       (if registerNewUser R ident then 200 else 500)"
  by (simp add: attemptUserRegistration_def)

lemma handleWaitlistOnly_known:
  "handleWaitlistOnlyRegistration L st newId ident policy True position =
     (st, [], \<lparr>resp_status = 200, resp_body = JObj
           [(''registered_signup'', JBool False), (''on_waitlist'', JBool True),
            (''waitlist_position'', JNum position),
            (''metadata'', JObj
               [(''message'', JStr ''On waitlist, but not yet eligible for signup'')])]\<rparr>)"
  by (simp add: handleWaitlistOnlyRegistration_def)

lemma scenarios_effects:
  assumes "registerUser_scenarios L R st newId ident userExists policy position = (st1, effects, resp)"
  shows "(effects = [] \<and> st1 = st)
       \<or> (\<not> userExists \<and> effects = [RegistryCommit ident] \<and> st1 = st
            \<and> resp_status resp = (if registerNewUser R ident then 200 else 500))
       \<or> (\<not> userExists \<and> effects = [WaitlistInsert ident]
            \<and> st1 = fst (insertUser L st newId \<lparr>ud_username = ident, ud_metadata = JUndefined\<rparr>
                            (waitlist_limit policy)))"
proof (cases rule: scenarios_cases [of userExists position policy L R st newId ident])
  case registered
  with assms show ?thesis by simp
next
  case capacity
  with assms have h: "handleUserLimitReached L st newId ident policy = (st1, effects, resp)"
    by simp
  from handleUserLimitReached_effects [of L st newId ident policy] capacity(1)
  show ?thesis by (simp add: h)
next
  case waitlist_only
  show ?thesis
  proof (cases "position > 0")
    case True
    with waitlist_only assms show ?thesis by (simp add: handleWaitlistOnly_known)
  next
    case False
    with waitlist_only assms
    have h: "handleWaitlistOnlyRegistration L st newId ident policy False position =
               (st1, effects, resp)"
      by simp
    from handleWaitlistOnly_new_effects [of L st newId ident policy position] waitlist_only(1)
    show ?thesis by (simp add: h)
  qed
next
  case (blocked reason)
  with assms show ?thesis by simp
next
  case eligible
  with assms
  have h: "attemptUserRegistration R st ident position (position > 0) = (st1, effects, resp)"
    by simp
  from attemptUserRegistration_effects [of R st ident position "position > 0"] eligible(1)
  show ?thesis by (simp add: h)
qed

lemma scenarios_registered:
  "registerUser_scenarios L R st newId ident True policy position =
     (st, [], handleExistingUserRegistration position)"
  by (simp add: registerUser_scenarios_def)

lemma failing_commit_run:
  "registerUserController sampleLibs (sampleRegistry sampleSettings False) threeStore ''id-4''
     (JStr ''a@x.com'')
   = (threeStore, [RegistryCommit ''a@x.com''],
      snd (snd (attemptUserRegistration (sampleRegistry sampleSettings False) threeStore
                  ''a@x.com'' 1 True)))"
proof -
  have "registerUser_scenarios sampleLibs (sampleRegistry sampleSettings False) threeStore ''id-4''
          ''a@x.com'' False sampleSettings 1
        = attemptUserRegistration (sampleRegistry sampleSettings False) threeStore ''a@x.com'' 1 True"
    by (simp add: registerUser_scenarios_def userLimitReached_def isWaitlistEligible_def
          checkWaitlistRegistrationBlocks_def sampleSettings_def)
  then show ?thesis
    by (simp add: registerUserController_def sampleLibs_validation sampleRegistry_simps
          threeStore_positions attemptUserRegistration_def)
qed

lemma registered_run:
  "registerUserController sampleLibs
     ((sampleRegistry sampleSettings True)\<lparr>checkUserExists := (\<lambda>u. True)\<rparr>) threeStore ''id-4''
     (JStr ''a@x.com'')
   = (threeStore, [], handleExistingUserRegistration 1)"
  by (simp add: registerUserController_def sampleLibs_validation sampleRegistry_def
        threeStore_positions scenarios_registered)

lemma deferred_run:
  "registerUserController sampleLibs
     (sampleRegistry (sampleSettings\<lparr>signed_up_user_limit := 10, signed_up_users := 10\<rparr>) True)
     emptyStore ''id-1'' (JStr ''a@x.com'')
   = handleUserLimitReached sampleLibs emptyStore ''id-1'' ''a@x.com''
       (sampleSettings\<lparr>signed_up_user_limit := 10, signed_up_users := 10\<rparr>)"
  by (simp add: registerUserController_def sampleLibs_validation sampleRegistry_simps
        registerUser_scenarios_def userLimitReached_def sampleSettings_def)

text \<open>
  Claim C8. One call of \<open>registerUserController\<close> makes at most one of the two calls
  \<open>registerNewUser\<close> and \<open>insertUser\<close>, and at most once; the store changes only through
  that one \<open>insertUser\<close> call; after \<open>registerNewUser\<close> was called the store is as it
  was, whether the commit succeeded or not, and a failed commit answers 500; an identity
  that is already registered causes neither call.
\<close>

theorem at_most_one_mutation:
  assumes "registerUserController L R st newId rawUsername = (st1, effects, resp)"
  shows "length effects \<le> 1
       \<and> (\<not> list_ex is_insert effects \<longrightarrow> st1 = st)
       \<and> (list_ex is_commit effects \<longrightarrow> \<not> list_ex is_insert effects \<and> st1 = st)
       \<and> (validIdentifier (validateAndSanitizeUsername L rawUsername) = Some ident
            \<and> getCurrentOnboardingSettings R = Inr policy \<and> checkUserExists R ident \<longrightarrow>
            effects = [] \<and> st1 = st)
       \<and> (validIdentifier (validateAndSanitizeUsername L rawUsername) = Some ident
            \<and> list_ex is_commit effects \<and> \<not> registerNewUser R ident \<longrightarrow>
            effects = [RegistryCommit ident] \<and> st1 = st \<and> resp_status resp = 500)
       \<and> (validIdentifier (validateAndSanitizeUsername L rawUsername) = Some ident
            \<and> getCurrentOnboardingSettings R = Inr policy \<and> list_ex is_insert effects \<longrightarrow>
            effects = [WaitlistInsert ident]
            \<and> st1 = fst (insertUser L st newId \<lparr>ud_username = ident, ud_metadata = JUndefined\<rparr>
                           (waitlist_limit policy)))"
proof (cases "validIdentifier (validateAndSanitizeUsername L rawUsername)")
  case None
  with assms show ?thesis by (auto simp: registerUserController_def Let_def)
next
  case (Some i)
  show ?thesis
  proof (cases "getCurrentOnboardingSettings R")
    case (Inl message)
    with Some assms show ?thesis by (auto simp: registerUserController_def Let_def)
  next
    case (Inr p)
    with Some assms
    have sc: "registerUser_scenarios L R st newId i (checkUserExists R i) p
                (getPositionByIdentifier st i) = (st1, effects, resp)"
      by (simp add: registerUserController_def Let_def)
    from scenarios_effects [OF sc] scenarios_registered sc Some Inr
    show ?thesis by auto
  qed
qed

theorem at_most_one_mutation_witness:
  "validIdentifier (validateAndSanitizeUsername sampleLibs (JStr ''a@x.com'')) = Some ''a@x.com''
   \<and> getCurrentOnboardingSettings (sampleRegistry sampleSettings False) = Inr sampleSettings
   \<and> \<not> registerNewUser (sampleRegistry sampleSettings False) ''a@x.com''
   \<and> fst (snd (registerUserController sampleLibs (sampleRegistry sampleSettings False) threeStore
          ''id-4'' (JStr ''a@x.com''))) = [RegistryCommit ''a@x.com'']
   \<and> fst (registerUserController sampleLibs (sampleRegistry sampleSettings False) threeStore
          ''id-4'' (JStr ''a@x.com'')) = threeStore
   \<and> resp_status (snd (snd (registerUserController sampleLibs (sampleRegistry sampleSettings False)
          threeStore ''id-4'' (JStr ''a@x.com'')))) = 500
   \<and> checkUserExists ((sampleRegistry sampleSettings True)\<lparr>checkUserExists := (\<lambda>u. True)\<rparr>)
        ''a@x.com''
   \<and> fst (snd (registerUserController sampleLibs
          ((sampleRegistry sampleSettings True)\<lparr>checkUserExists := (\<lambda>u. True)\<rparr>) threeStore
          ''id-4'' (JStr ''a@x.com''))) = []
   \<and> fst (snd (registerUserController sampleLibs
          (sampleRegistry (sampleSettings\<lparr>signed_up_user_limit := 10, signed_up_users := 10\<rparr>) True)
          emptyStore ''id-1'' (JStr ''a@x.com''))) = [WaitlistInsert ''a@x.com'']
   \<and> waitlist (fst (registerUserController sampleLibs
          (sampleRegistry (sampleSettings\<lparr>signed_up_user_limit := 10, signed_up_users := 10\<rparr>) True)
          emptyStore ''id-1'' (JStr ''a@x.com''))) = [''id-1'']"
proof -
  let ?R = "sampleRegistry sampleSettings False"
  let ?resp = "snd (snd (attemptUserRegistration ?R threeStore ''a@x.com'' 1 True))"
  let ?R2 = "(sampleRegistry sampleSettings True)\<lparr>checkUserExists := (\<lambda>u. True)\<rparr>"
  let ?F = "sampleSettings\<lparr>signed_up_user_limit := 10, signed_up_users := 10\<rparr>"
  let ?R3 = "sampleRegistry ?F True"
  let ?out3 = "handleUserLimitReached sampleLibs emptyStore ''id-1'' ''a@x.com'' ?F"
  have a: "list_ex is_commit [RegistryCommit ''a@x.com'']" by simp
  have b: "\<not> registerNewUser ?R ''a@x.com''" by (simp add: sampleRegistry_simps)
  from at_most_one_mutation [OF failing_commit_run, where ident = "''a@x.com''"]
    sampleLibs_validation(1) a b
  have c: "resp_status ?resp = 500" by simp
  have d: "checkUserExists ?R2 ''a@x.com''" "getCurrentOnboardingSettings ?R2 = Inr sampleSettings"
    by (simp_all add: sampleRegistry_def)
  from at_most_one_mutation [OF registered_run, where ident = "''a@x.com''"
      and policy = sampleSettings] sampleLibs_validation(1) d
  have e: "fst (snd (registerUserController sampleLibs ?R2 threeStore ''id-4'' (JStr ''a@x.com''))) = []"
    by (simp add: registered_run)
  have lim: "waitlist_limit ?F = 2" by (simp add: sampleSettings_def)
  have eff3: "fst (snd ?out3) = [WaitlistInsert ''a@x.com'']"
    using handleUserLimitReached_effects [of sampleLibs emptyStore "''id-1''" "''a@x.com''" ?F]
    by simp
  then have ins: "list_ex is_insert (fst (snd ?out3))" by simp
  have run3: "registerUserController sampleLibs ?R3 emptyStore ''id-1'' (JStr ''a@x.com'')
     = (fst ?out3, fst (snd ?out3), snd (snd ?out3))"
    by (simp add: deferred_run)
  from at_most_one_mutation [OF run3, where ident = "''a@x.com''" and policy = ?F]
    sampleLibs_validation(1) ins
  have f: "fst ?out3 = fst (insertUser sampleLibs emptyStore ''id-1''
             \<lparr>ud_username = ''a@x.com'', ud_metadata = JUndefined\<rparr> 2)"
    by (simp add: sampleRegistry_simps lim)
  then have g: "waitlist (fst ?out3) = [''id-1'']"
    by (simp add: sampleLibs_first_insert)
  from b c d e eff3 g sampleLibs_validation(1) show ?thesis
    by (simp add: failing_commit_run deferred_run sampleRegistry_simps)
qed

end
